theory Spec2Isabelle
  imports Complex_Main "HOL-Library.Log_Nat"
begin

section \<open>Data model\<close>

text \<open>
  The dashboard is one React component, \<open>DisasterWarningSystem\<close>, with a helper
  \<open>detectRoadIntersections\<close>.  The numbers of a payload are modelled as
  \<^typ>\<open>real\<close>; the code only compares them and takes maxima, except in
  \<open>handleRoadAlertClick\<close>, whose sum and quotient are computed in double precision
  (section on double arithmetic below).  Strings are \<^typ>\<open>string\<close>.  A property
  that may be \<open>undefined\<close> or \<open>null\<close> on the wire is an \<^typ>\<open>'a option\<close>.
\<close>

record bounds =
  minLat :: real
  minLon :: real
  maxLat :: real
  maxLon :: real

text \<open>
  A hazard sub-record of the payload (\<open>cell.flood\<close>, \<open>cell.landslide\<close>), and the
  flattened cell the component stores: the three fields of the sub-record plus the
  \<open>bounds\<close> of the raw record, copied as they are (absent when the raw record has none).
\<close>

record hazard =
  cal_type :: string
  risk_percentage :: real
  updated_at :: string

record risk_cell = hazard +
  bounds :: "bounds option"

record road_alert =
  alert_id :: string
  road :: string
  severity :: real
  cells :: "risk_cell list"
  message :: string
  recommendation :: string

datatype js_error = TypeError | SyntaxError | NetworkError | ApiError nat

definition LANDSLIDE :: string where
  "LANDSLIDE = ''landslide''"

definition FLOOD :: string where
  "FLOOD = ''flood''"

section \<open>Road intersection detection\<close>

text \<open>
  \<open>highRiskCells.filter(c => p(c.bounds.minLat))\<close>: reading \<open>minLat\<close> of absent
  bounds throws a TypeError, which aborts the whole call.
\<close>

fun filter_minLat :: "(real \<Rightarrow> bool) \<Rightarrow> risk_cell list \<Rightarrow> js_error + risk_cell list" where
  "filter_minLat p [] = Inr []"
| "filter_minLat p (c # cs) =
     (case bounds c of
        None \<Rightarrow> Inl TypeError
      | Some b \<Rightarrow>
          (case filter_minLat p cs of
             Inl e \<Rightarrow> Inl e
           | Inr r \<Rightarrow> Inr (if p (minLat b) then c # r else r)))"

text \<open>
  One \<open>if (band.length > 0) alerts.push({...})\<close> block.  The severity is
  \<open>Math.max(...band.map(c => c.risk_percentage))\<close>, taken over a band that the guard
  has made non-empty.
\<close>

definition push_alert ::
  "string \<Rightarrow> string \<Rightarrow> string \<Rightarrow> string \<Rightarrow> risk_cell list \<Rightarrow> road_alert list" where
  "push_alert i r m rc band =
     (case band of
        [] \<Rightarrow> []
      | c # cs \<Rightarrow>
          [\<lparr>alert_id = i, road = r,
            severity = fold max (map risk_percentage cs) (risk_percentage c),
            cells = band, message = m, recommendation = rc\<rparr>])"

definition detectRoadIntersections ::
  "risk_cell list \<Rightarrow> string \<Rightarrow> js_error + road_alert list" where
  "detectRoadIntersections riskCells calamityType =
     (let highRiskCells = filter (\<lambda>cell. risk_percentage cell \<ge> 30) riskCells in
      if length highRiskCells = 0 then Inr []
      else
        (case filter_minLat (\<lambda>m. m > 24.85) highRiskCells of
           Inl e \<Rightarrow> Inl e
         | Inr northernRisk \<Rightarrow>
        (case filter_minLat (\<lambda>m. m \<ge> 24.7 \<and> m \<le> 24.85) highRiskCells of
           Inl e \<Rightarrow> Inl e
         | Inr centralRisk \<Rightarrow>
        (case filter_minLat (\<lambda>m. m < 24.7) highRiskCells of
           Inl e \<Rightarrow> Inl e
         | Inr southernRisk \<Rightarrow>
            Inr (if calamityType = LANDSLIDE then
                   push_alert ''nh2-north'' ''NH-2 (Imphal-Senapati Highway)''
                     ''Hill road section may experience landslide blockage''
                     ''Avoid travel on hill sections. Use alternative valley routes if available.''
                     northernRisk
                   @ push_alert ''imphal-central'' ''Imphal City Ring Road''
                     ''Slope-adjacent road sections at risk''
                     ''Monitor conditions. Debris clearance may be required.''
                     centralRisk
                 else if calamityType = FLOOD then
                   push_alert ''imphal-valley'' ''Imphal Valley Low-lying Roads''
                     ''Low-lying areas may experience flooding''
                     ''Seek higher elevation. Avoid crossing flooded sections.''
                     centralRisk
                   @ push_alert ''loktak-roads'' ''Roads near Loktak Lake''
                     ''Waterlogging expected in lakeside areas''
                     ''Use elevated bypass routes. Monitor water levels.''
                     southernRisk
                 else [])))))"

subsection \<open>The synthesizer as the specification words it\<close>

text \<open>
  A second definition, written from the specification's algorithm (steps 1 to 5 of
  its alert synthesizer) and not from the code: discard cells below 30, split the
  rest into three latitude bands, and emit at most two alerts in a fixed order, each
  with the maximum risk of its band.  It is what \<open>detectRoadIntersections\<close> is
  compared with.
\<close>

definition spec_minLat_in :: "real set \<Rightarrow> risk_cell \<Rightarrow> bool" where
  "spec_minLat_in S c = (case bounds c of None \<Rightarrow> False | Some b \<Rightarrow> minLat b \<in> S)"

definition spec_north :: "risk_cell list \<Rightarrow> risk_cell list" where
  "spec_north cs = filter (spec_minLat_in {m. 24.85 < m}) cs"

definition spec_central :: "risk_cell list \<Rightarrow> risk_cell list" where
  "spec_central cs = filter (spec_minLat_in {m. 24.70 \<le> m \<and> m \<le> 24.85}) cs"

definition spec_south :: "risk_cell list \<Rightarrow> risk_cell list" where
  "spec_south cs = filter (spec_minLat_in {m. m < 24.70}) cs"

definition spec_alert ::
  "string \<Rightarrow> string \<Rightarrow> string \<Rightarrow> string \<Rightarrow> risk_cell list \<Rightarrow> road_alert list" where
  "spec_alert i r m rc band =
     (if band = [] then []
      else [\<lparr>alert_id = i, road = r,
             severity = Max (risk_percentage ` set band),
             cells = band, message = m, recommendation = rc\<rparr>])"

definition synthesize_spec :: "risk_cell list \<Rightarrow> string \<Rightarrow> road_alert list" where
  "synthesize_spec cs hazardType =
     (let kept = filter (\<lambda>c. \<not> risk_percentage c < 30) cs in
      if hazardType = ''landslide'' then
        spec_alert ''nh2-north'' ''NH-2 (Imphal-Senapati Highway)''
          ''Hill road section may experience landslide blockage''
          ''Avoid travel on hill sections. Use alternative valley routes if available.''
          (spec_north kept)
        @ spec_alert ''imphal-central'' ''Imphal City Ring Road''
          ''Slope-adjacent road sections at risk''
          ''Monitor conditions. Debris clearance may be required.''
          (spec_central kept)
      else if hazardType = ''flood'' then
        spec_alert ''imphal-valley'' ''Imphal Valley Low-lying Roads''
          ''Low-lying areas may experience flooding''
          ''Seek higher elevation. Avoid crossing flooded sections.''
          (spec_central kept)
        @ spec_alert ''loktak-roads'' ''Roads near Loktak Lake''
          ''Waterlogging expected in lakeside areas''
          ''Use elevated bypass routes. Monitor water levels.''
          (spec_south kept)
      else [])"

section \<open>Normalizing the response payload\<close>

text \<open>
  The body of a response, as \<open>response.json()\<close> returns it.  Only its shape matters
  to \<open>fetchDisasterData\<close>: whether it is \<open>null\<close>, a falsy or truthy scalar, an
  array, or an object, and for an object the value of its \<open>status\<close> property when it
  has one.  An element of an array is \<open>null\<close>, a value without properties of
  interest (a scalar or a nested array), or an object with its \<open>bounds\<close>, \<open>flood\<close>
  and \<open>landslide\<close> properties; \<open>None\<close> stands for bounds that are absent or
  \<open>null\<close>, and for a sub-record that is absent or falsy.  Bounds that are present
  have their four numbers, a sub-record that is present has the three fields of the
  wire contract.
\<close>

datatype raw =
    R_null
  | R_prim
  | R_obj (r_bounds: "bounds option") (flood: "hazard option") (landslide: "hazard option")

datatype payload =
    P_null
  | P_bool bool
  | P_num real
  | P_str string
  | P_arr "raw list"
  | P_obj "payload option"

text \<open>JavaScript truthiness of a parsed JSON value.\<close>

fun truthy :: "payload \<Rightarrow> bool" where
  "truthy P_null = False"
| "truthy (P_bool b) = b"
| "truthy (P_num n) = (n \<noteq> 0)"
| "truthy (P_str s) = (s \<noteq> [])"
| "truthy (P_arr xs) = True"
| "truthy (P_obj st) = True"

text \<open>
  \<open>const rawCells = data.status || data || []\<close>.  Reading \<open>status\<close> of \<open>null\<close>
  throws; of a scalar or an array it is \<open>undefined\<close>.
\<close>

fun rawCells :: "payload \<Rightarrow> js_error + payload" where
  "rawCells P_null = Inl TypeError"
| "rawCells (P_obj (Some st)) = Inr (if truthy st then st else P_obj (Some st))"
| "rawCells dat = Inr (if truthy dat then dat else P_arr [])"

text \<open>
  The callback of \<open>rawCells.forEach\<close>, returning the cells it pushes: the flood cell
  first, then the landslide cell.  Reading \<open>flood\<close> of a \<open>null\<close> element throws.
\<close>

definition flat_cell :: "bounds option \<Rightarrow> hazard \<Rightarrow> risk_cell" where
  "flat_cell b h =
     \<lparr>cal_type = cal_type h, risk_percentage = risk_percentage h,
      updated_at = updated_at h, bounds = b\<rparr>"

fun transform_cell :: "raw \<Rightarrow> js_error + risk_cell list" where
  "transform_cell R_null = Inl TypeError"
| "transform_cell R_prim = Inr []"
| "transform_cell (R_obj b f l) =
     Inr ((case f of None \<Rightarrow> [] | Some h \<Rightarrow> [flat_cell b h])
          @ (case l of None \<Rightarrow> [] | Some h \<Rightarrow> [flat_cell b h]))"

text \<open>The loop, threading \<open>transformedCells\<close>; an exception leaves the loop.\<close>

fun forEach_cells :: "raw list \<Rightarrow> risk_cell list \<Rightarrow> js_error + risk_cell list" where
  "forEach_cells [] transformedCells = Inr transformedCells"
| "forEach_cells (cell # rest) transformedCells =
     (case transform_cell cell of
        Inl e \<Rightarrow> Inl e
      | Inr new \<Rightarrow> forEach_cells rest (transformedCells @ new))"

text \<open>
  The part of the \<open>try\<close> block between \<open>response.json()\<close> and \<open>setRiskCells\<close>.
  \<open>forEach\<close> exists on arrays only; calling it on anything else throws.
\<close>

definition transformedCells_of :: "payload \<Rightarrow> js_error + risk_cell list" where
  "transformedCells_of dat =
     (case rawCells dat of
        Inl e \<Rightarrow> Inl e
      | Inr (P_arr xs) \<Rightarrow> forEach_cells xs []
      | Inr _ \<Rightarrow> Inl TypeError)"

text \<open>
  What \<open>await fetch(...)\<close> delivers: a rejection, or a response with its status
  and its body (\<open>None\<close> when the body is not JSON, so that \<open>response.json()\<close>
  rejects); \<open>response.ok\<close> is true for a status from 200 to 299.  \<open>fetch_outcome\<close>
  is the value of the \<open>try\<close> block: the cells handed to \<open>setRiskCells\<close>, or the
  error the \<open>catch\<close> clause receives.
\<close>

datatype response = Rejected | Response nat "payload option"

definition ok :: "nat \<Rightarrow> bool" where
  "ok status = (200 \<le> status \<and> status \<le> 299)"

fun fetch_outcome :: "response \<Rightarrow> js_error + risk_cell list" where
  "fetch_outcome Rejected = Inl NetworkError"
| "fetch_outcome (Response status body) =
     (if \<not> ok status then Inl (ApiError status)
      else (case body of
              None \<Rightarrow> Inl SyntaxError
            | Some dat \<Rightarrow> transformedCells_of dat))"

section \<open>Risk classification and statistics\<close>

definition getRiskColor :: "real \<Rightarrow> string" where
  "getRiskColor riskPercentage =
     (if riskPercentage < 30 then ''#22c55e''
      else if riskPercentage < 60 then ''#f97316''
      else ''#ef4444'')"

definition getRiskLevel :: "real \<Rightarrow> string" where
  "getRiskLevel riskPercentage =
     (if riskPercentage < 30 then ''Low Risk''
      else if riskPercentage < 60 then ''Moderate Risk''
      else ''High Risk'')"

text \<open>\<open>riskCells.filter(cell => cell.cal_type === calamityMode)\<close>\<close>

definition filteredCells :: "risk_cell list \<Rightarrow> string \<Rightarrow> risk_cell list" where
  "filteredCells riskCells calamityMode = filter (\<lambda>cell. cal_type cell = calamityMode) riskCells"

record stats_rec =
  total_count :: nat
  highRisk :: nat
  moderateRisk :: nat
  lowRisk :: nat

text \<open>
  The \<open>stats\<close> object, computed from the filtered cells at every render
  (\<open>total_count\<close> is its field \<open>total\<close>).
\<close>

definition stats :: "risk_cell list \<Rightarrow> stats_rec" where
  "stats fc =
     \<lparr>total_count = length fc,
      highRisk = length (filter (\<lambda>c. risk_percentage c \<ge> 60) fc),
      moderateRisk = length (filter (\<lambda>c. risk_percentage c \<ge> 30 \<and> risk_percentage c < 60) fc),
      lowRisk = length (filter (\<lambda>c. risk_percentage c < 30) fc)\<rparr>"

section \<open>Double arithmetic\<close>

text \<open>
  JavaScript numbers are IEEE 754 binary64 values.  A \<open>double\<close> is a finite value,
  given by the real it denotes, an infinity or NaN (the two zeros are not told
  apart).  \<open>to_double\<close> rounds a real to the nearest double, ties to the even
  significand: 53 bits of precision, gradual underflow below \<open>2 ^ (-1022)\<close>,
  overflow to an infinity from \<open>2 ^ 1024\<close>.  This is how JavaScript reads a decimal
  literal and how it rounds the exact result of an operation.  \<open>ilog2 x\<close> is the
  binary exponent of a positive \<open>x\<close>, and \<open>pow2 (e - 52)\<close> the distance between
  neighbouring doubles of exponent \<open>e\<close>.
\<close>

datatype double = Num real | Infinity | NegInfinity | NaN

definition pow2 :: "int \<Rightarrow> real" where
  "pow2 e = (if 0 \<le> e then 2 ^ nat e else 1 / 2 ^ nat (- e))"

definition ilog2 :: "real \<Rightarrow> int" where
  "ilog2 x = (if 1 \<le> x then bitlen \<lfloor>x\<rfloor> - 1 else - bitlen (\<lceil>1 / x\<rceil> - 1))"

definition round_even :: "real \<Rightarrow> int" where
  "round_even r =
     (let f = \<lfloor>r\<rfloor>; d = r - of_int f
      in if d < 1 / 2 then f else if 1 / 2 < d then f + 1 else if even f then f else f + 1)"

definition to_double :: "real \<Rightarrow> double" where
  "to_double x =
     (if x = 0 then Num 0
      else
        let e = max (ilog2 \<bar>x\<bar>) (- 1022);
            q = pow2 (e - 52);
            y = of_int (round_even (x / q)) * q
        in if 2 ^ 1024 \<le> \<bar>y\<bar> then (if 0 < x then Infinity else NegInfinity) else Num y)"

text \<open>\<open>a + b\<close> and \<open>a / 2\<close> on doubles: the exact result, rounded.\<close>

fun js_add :: "double \<Rightarrow> double \<Rightarrow> double" where
  "js_add (Num a) (Num b) = to_double (a + b)"
| "js_add NaN _ = NaN"
| "js_add _ NaN = NaN"
| "js_add Infinity NegInfinity = NaN"
| "js_add NegInfinity Infinity = NaN"
| "js_add Infinity _ = Infinity"
| "js_add _ Infinity = Infinity"
| "js_add NegInfinity _ = NegInfinity"
| "js_add _ NegInfinity = NegInfinity"

fun js_half :: "double \<Rightarrow> double" where
  "js_half (Num a) = to_double (a / 2)"
| "js_half d = d"

section \<open>The component\<close>

text \<open>
  The coordinates of a view are doubles; a decimal literal of the source is written
  \<open>Num\<close> of that decimal and stands for the double nearest to it.
\<close>

record view =
  center :: "double \<times> double"
  zoom :: nat

definition MAP_VIEWS_world :: view where
  "MAP_VIEWS_world = \<lparr>center = (Num 20, Num 0), zoom = 2\<rparr>"

definition MAP_VIEWS_india :: view where
  "MAP_VIEWS_india = \<lparr>center = (Num 22.5, Num 79), zoom = 5\<rparr>"

definition MAP_VIEWS_manipur :: view where
  "MAP_VIEWS_manipur = \<lparr>center = (Num 24.8, Num 93.95), zoom = 9\<rparr>"

definition MANIPUR_DISTRICTS :: "(string \<times> view) list" where
  "MANIPUR_DISTRICTS =
     [(''Bishnupur'', \<lparr>center = (Num 24.6167, Num 93.7667), zoom = 11\<rparr>),
      (''Chandel'', \<lparr>center = (Num 24.3167, Num 94.0167), zoom = 10\<rparr>),
      (''Churachandpur'', \<lparr>center = (Num 24.3333, Num 93.6667), zoom = 10\<rparr>),
      (''ImphalEast'', \<lparr>center = (Num 24.7667, Num 93.9667), zoom = 11\<rparr>),
      (''ImphalWest'', \<lparr>center = (Num 24.8167, Num 93.9167), zoom = 11\<rparr>),
      (''Jiribam'', \<lparr>center = (Num 24.8083, Num 93.1167), zoom = 11\<rparr>),
      (''Kakching'', \<lparr>center = (Num 24.4833, Num 93.9833), zoom = 11\<rparr>),
      (''Kamjong'', \<lparr>center = (Num 24.8333, Num 94.4167), zoom = 10\<rparr>),
      (''Kangpokpi'', \<lparr>center = (Num 25.2167, Num 93.9833), zoom = 10\<rparr>),
      (''Noney'', \<lparr>center = (Num 24.9500, Num 93.6833), zoom = 10\<rparr>),
      (''Pherzawl'', \<lparr>center = (Num 24.1667, Num 93.1167), zoom = 10\<rparr>),
      (''Senapati'', \<lparr>center = (Num 25.2667, Num 94.0167), zoom = 10\<rparr>),
      (''Tamenglong'', \<lparr>center = (Num 24.9833, Num 93.4833), zoom = 10\<rparr>),
      (''Tengnoupal'', \<lparr>center = (Num 24.3167, Num 94.1333), zoom = 10\<rparr>),
      (''Thoubal'', \<lparr>center = (Num 24.6333, Num 94.0000), zoom = 11\<rparr>),
      (''Ukhrul'', \<lparr>center = (Num 25.0500, Num 94.3667), zoom = 10\<rparr>)]"

text \<open>
  The twelve \<open>useState\<close> cells of \<open>DisasterWarningSystem\<close>.  \<open>lastUpdated\<close> holds
  the reading of the clock, \<open>error\<close> the exception whose message is shown.
\<close>

record component =
  selectedCountry :: string
  selectedState :: string
  selectedDistrict :: string
  riskCells :: "risk_cell list"
  roadAlerts :: "road_alert list"
  calamityMode :: string
  lastUpdated :: "nat option"
  loading :: bool
  error :: "js_error option"
  mapCenter :: "double \<times> double"
  mapZoom :: nat
  selectedRoadAlert :: "road_alert option"

text \<open>
  What React and the JavaScript runtime keep beside the state: for each of the three
  \<open>useEffect\<close> hooks the dependency values of its last run, whether an exception
  during rendering or in an effect has unmounted the component, and the districts of
  the calls of \<open>fetchDisasterData\<close> that are suspended at their \<open>await\<close>.
\<close>

record runtime = component +
  country_deps :: string
  state_deps :: "string \<times> string"
  alerts_deps :: "nat \<times> string"
  unmounted :: bool
  awaiting :: "string list"

subsection \<open>Effects\<close>

text \<open>
  React 18 batches state updates: those of an event handler, of the continuation of
  an \<open>await\<close>, and of the effects of one commit are each applied together, a later
  update of a state cell overriding an earlier one.  An effect reads the state of the
  render it belongs to (\<open>snap\<close>) and queues updates (\<open>acc\<close> is the state with the
  updates queued so far); effects run in the order of their declaration, each only
  if one of its dependencies differs from its last run.
\<close>

definition country_effect :: "runtime \<Rightarrow> runtime \<Rightarrow> runtime" where
  "country_effect snap acc =
     (if selectedCountry snap = ''India'' then
        acc\<lparr>mapCenter := center MAP_VIEWS_india, mapZoom := zoom MAP_VIEWS_india\<rparr>
      else if selectedCountry snap = '''' then
        acc\<lparr>mapCenter := center MAP_VIEWS_world, mapZoom := zoom MAP_VIEWS_world,
            selectedState := '''', selectedDistrict := '''',
            riskCells := [], roadAlerts := []\<rparr>
      else acc)"

definition state_effect :: "runtime \<Rightarrow> runtime \<Rightarrow> runtime" where
  "state_effect snap acc =
     (if selectedState snap = ''Manipur'' then
        acc\<lparr>mapCenter := center MAP_VIEWS_manipur, mapZoom := zoom MAP_VIEWS_manipur\<rparr>
      else if selectedState snap = '''' \<and> selectedCountry snap = ''India'' then
        acc\<lparr>mapCenter := center MAP_VIEWS_india, mapZoom := zoom MAP_VIEWS_india,
            selectedDistrict := '''', riskCells := [], roadAlerts := []\<rparr>
      else acc)"

definition alerts_effect :: "runtime \<Rightarrow> runtime \<Rightarrow> js_error + runtime" where
  "alerts_effect snap acc =
     (let fc = filteredCells (riskCells snap) (calamityMode snap) in
      if length fc > 0 then
        (case detectRoadIntersections fc (calamityMode snap) of
           Inl e \<Rightarrow> Inl e
         | Inr alerts \<Rightarrow> Inr (acc\<lparr>roadAlerts := alerts\<rparr>))
      else Inr (acc\<lparr>roadAlerts := []\<rparr>))"

text \<open>The dependency arrays, evaluated in a state.\<close>

definition deps_of :: "runtime \<Rightarrow> string \<times> (string \<times> string) \<times> (nat \<times> string)" where
  "deps_of s =
     (selectedCountry s,
      (selectedState s, selectedCountry s),
      (length (filteredCells (riskCells s) (calamityMode s)), calamityMode s))"

definition effects_pending :: "runtime \<Rightarrow> bool" where
  "effects_pending s = (deps_of s \<noteq> (country_deps s, state_deps s, alerts_deps s))"

definition run_effects :: "runtime \<Rightarrow> runtime" where
  "run_effects s =
     (let a1 = (if selectedCountry s \<noteq> country_deps s then country_effect s s else s);
          a2 = (if (selectedState s, selectedCountry s) \<noteq> state_deps s
                then state_effect s a1 else a1);
          r3 = (if (length (filteredCells (riskCells s) (calamityMode s)), calamityMode s)
                   \<noteq> alerts_deps s
                then alerts_effect s a2 else Inr a2)
      in case r3 of
           Inl e \<Rightarrow> s\<lparr>unmounted := True\<rparr>
         | Inr a3 \<Rightarrow>
             a3\<lparr>country_deps := selectedCountry s,
                state_deps := (selectedState s, selectedCountry s),
                alerts_deps :=
                  (length (filteredCells (riskCells s) (calamityMode s)), calamityMode s)\<rparr>)"

subsection \<open>Rendering\<close>

text \<open>
  The only expressions of the markup that can throw: each filtered cell is drawn
  from \<open>cell.bounds.minLat\<close> and its neighbours, and compared with the cells of the
  selected alert by \<open>selectedRoadAlert.cells.some(c => c.bounds.minLat === ... &&
  c.bounds.minLon === ...)\<close>, which stops at the first match.
\<close>

fun some_throws :: "risk_cell list \<Rightarrow> bounds \<Rightarrow> bool" where
  "some_throws [] b = False"
| "some_throws (c # cs) b =
     (case bounds c of
        None \<Rightarrow> True
      | Some cb \<Rightarrow>
          if minLat cb = minLat b \<and> minLon cb = minLon b then False else some_throws cs b)"

definition rectangle_throws :: "road_alert option \<Rightarrow> risk_cell \<Rightarrow> bool" where
  "rectangle_throws sel cell =
     (case bounds cell of
        None \<Rightarrow> True
      | Some b \<Rightarrow> (case sel of None \<Rightarrow> False | Some a \<Rightarrow> some_throws (cells a) b))"

definition render_throws :: "runtime \<Rightarrow> bool" where
  "render_throws s =
     list_ex (rectangle_throws (selectedRoadAlert s))
       (filteredCells (riskCells s) (calamityMode s))"

text \<open>
  One render with its effects.  Three of them settle every state: the effects write
  \<open>selectedState\<close>, \<open>selectedDistrict\<close>, \<open>riskCells\<close> and \<open>roadAlerts\<close> only, and
  only to their empty values.
\<close>

definition render_round :: "runtime \<Rightarrow> runtime" where
  "render_round s =
     (if unmounted s then s
      else if render_throws s then s\<lparr>unmounted := True\<rparr>
      else if effects_pending s then run_effects s
      else s)"

definition commit :: "runtime \<Rightarrow> runtime" where
  "commit s = render_round (render_round (render_round s))"

subsection \<open>Event handlers\<close>

text \<open>\<open>district.replace(/\s+/g, '')\<close>, on ASCII strings.\<close>

definition strip_ws :: "string \<Rightarrow> string" where
  "strip_ws district =
     filter (\<lambda>c. c \<notin> set [CHR '' '', CHR 0x09, CHR 0x0A, CHR 0x0B, CHR 0x0C, CHR 0x0D]) district"

text \<open>\<open>fetchDisasterData\<close> up to its first \<open>await\<close>.\<close>

definition fetchDisasterData_start :: "string \<Rightarrow> runtime \<Rightarrow> runtime" where
  "fetchDisasterData_start district s =
     s\<lparr>loading := True, error := None, riskCells := [], roadAlerts := [],
       awaiting := awaiting s @ [district]\<rparr>"

text \<open>
  \<open>fetchDisasterData\<close> from the moment the response (or the rejection) arrives, at
  clock reading \<open>now\<close>: the rest of the \<open>try\<close> block, or the \<open>catch\<close> clause, then
  \<open>finally\<close>.  Nothing here reads the component's state.
\<close>

definition fetchDisasterData_resume :: "string \<Rightarrow> response \<Rightarrow> nat \<Rightarrow> runtime \<Rightarrow> runtime" where
  "fetchDisasterData_resume district resp now s =
     (let districtParam = strip_ws district in
      case fetch_outcome resp of
        Inr transformedCells \<Rightarrow>
          (let s1 = s\<lparr>riskCells := transformedCells, lastUpdated := Some now\<rparr>;
               s2 = (case map_of MANIPUR_DISTRICTS districtParam of
                       Some v \<Rightarrow> s1\<lparr>mapCenter := center v, mapZoom := zoom v\<rparr>
                     | None \<Rightarrow> s1)
           in s2\<lparr>loading := False\<rparr>)
      | Inl err \<Rightarrow> s\<lparr>error := Some err, loading := False\<rparr>)"

definition handleDistrictChange :: "string \<Rightarrow> runtime \<Rightarrow> runtime" where
  "handleDistrictChange district s =
     (let s1 = s\<lparr>selectedDistrict := district\<rparr> in
      if district \<noteq> '''' then fetchDisasterData_start district s1
      else s1\<lparr>riskCells := [], roadAlerts := [],
              mapCenter := center MAP_VIEWS_manipur, mapZoom := zoom MAP_VIEWS_manipur\<rparr>)"

text \<open>
  When the first cell has no bounds the handler throws after
  \<open>setSelectedRoadAlert\<close>, whose update stays queued.  \<open>centerLat\<close> and
  \<open>centerLon\<close> are computed on the doubles of the bounds, in double arithmetic.
\<close>

definition handleRoadAlertClick :: "road_alert \<Rightarrow> runtime \<Rightarrow> runtime" where
  "handleRoadAlertClick alert s =
     (let s1 = s\<lparr>selectedRoadAlert := Some alert\<rparr> in
      case cells alert of
        [] \<Rightarrow> s1
      | cell # _ \<Rightarrow>
          (case bounds cell of
             None \<Rightarrow> s1
           | Some b \<Rightarrow>
               (let centerLat = js_half (js_add (to_double (minLat b)) (to_double (maxLat b)));
                    centerLon = js_half (js_add (to_double (minLon b)) (to_double (maxLon b)))
                in s1\<lparr>mapCenter := (centerLat, centerLon), mapZoom := 12\<rparr>)))"

datatype event =
    Select_country string
  | Select_state string
  | Select_district string
  | Click_landslide
  | Click_flood
  | Click_alert road_alert
  | Fetch_settled string response nat

fun handler :: "event \<Rightarrow> runtime \<Rightarrow> runtime" where
  "handler (Select_country v) s = s\<lparr>selectedCountry := v\<rparr>"
| "handler (Select_state v) s = s\<lparr>selectedState := v\<rparr>"
| "handler (Select_district v) s = handleDistrictChange v s"
| "handler Click_landslide s = s\<lparr>calamityMode := LANDSLIDE\<rparr>"
| "handler Click_flood s = s\<lparr>calamityMode := FLOOD\<rparr>"
| "handler (Click_alert a) s = handleRoadAlertClick a s"
| "handler (Fetch_settled district resp now) s =
     (if district \<in> set (awaiting s)
      then fetchDisasterData_resume district resp now
             (s\<lparr>awaiting := remove1 district (awaiting s)\<rparr>)
      else s)"

text \<open>One event: the handler's batched updates, then rendering until settled.\<close>

definition step :: "runtime \<Rightarrow> event \<Rightarrow> runtime" where
  "step s e = (if unmounted s then s else commit (handler e s))"

definition run :: "runtime \<Rightarrow> event list \<Rightarrow> runtime" where
  "run s es = foldl step s es"

text \<open>The component after mounting: the initial values of the \<open>useState\<close> calls.\<close>

definition init :: runtime where
  "init =
     \<lparr>selectedCountry = '''', selectedState = '''', selectedDistrict = '''',
      riskCells = [], roadAlerts = [], calamityMode = LANDSLIDE,
      lastUpdated = None, loading = False, error = None,
      mapCenter = center MAP_VIEWS_world, mapZoom = zoom MAP_VIEWS_world,
      selectedRoadAlert = None,
      country_deps = '''', state_deps = ('''', ''''), alerts_deps = (0, LANDSLIDE),
      unmounted = False, awaiting = []\<rparr>"

definition settled :: "runtime \<Rightarrow> bool" where
  "settled s = (\<not> unmounted s \<and> \<not> render_throws s \<and> \<not> effects_pending s)"

subsection \<open>What the page lets the user do\<close>

text \<open>
  An event can occur in a state when the markup offers it there: a select fires
  \<open>onChange\<close> with one of its options other than the current one, the state and
  district selects are disabled while the level above is empty, the mode buttons
  are shown only while a district is selected, only listed alerts can be clicked,
  and only a suspended call of \<open>fetchDisasterData\<close> can resume.
\<close>

fun enabled :: "runtime \<Rightarrow> event \<Rightarrow> bool" where
  "enabled s (Select_country v) = (v \<noteq> selectedCountry s \<and> (v = '''' \<or> v = ''India''))"
| "enabled s (Select_state v) =
     (selectedCountry s \<noteq> '''' \<and> v \<noteq> selectedState s \<and> (v = '''' \<or> v = ''Manipur''))"
| "enabled s (Select_district v) =
     (selectedState s \<noteq> '''' \<and> v \<noteq> selectedDistrict s \<and>
      (v = '''' \<or> map_of MANIPUR_DISTRICTS v \<noteq> None))"
| "enabled s Click_landslide = (selectedDistrict s \<noteq> '''')"
| "enabled s Click_flood = (selectedDistrict s \<noteq> '''')"
| "enabled s (Click_alert a) = (a \<in> set (roadAlerts s))"
| "enabled s (Fetch_settled district resp now) = (district \<in> set (awaiting s))"

fun feasible :: "runtime \<Rightarrow> event list \<Rightarrow> bool" where
  "feasible s [] = True"
| "feasible s (e # es) = (\<not> unmounted s \<and> enabled s e \<and> feasible (step s e) es)"

section \<open>Auxiliary notions for the proofs\<close>

text \<open>
  The updates that the two navigation effects queue in one commit, the alerts that
  the third effect computes, and the bookkeeping of the dependency arrays.
\<close>

definition nav_updates :: "runtime \<Rightarrow> runtime" where
  "nav_updates s =
     (let a1 = (if selectedCountry s \<noteq> country_deps s then country_effect s s else s)
      in if (selectedState s, selectedCountry s) \<noteq> state_deps s then state_effect s a1 else a1)"

definition fresh_alerts :: "runtime \<Rightarrow> js_error + road_alert list" where
  "fresh_alerts s =
     detectRoadIntersections (filteredCells (riskCells s) (calamityMode s)) (calamityMode s)"

definition with_deps :: "runtime \<Rightarrow> runtime \<Rightarrow> runtime" where
  "with_deps s a =
     a\<lparr>country_deps := selectedCountry s,
       state_deps := (selectedState s, selectedCountry s),
       alerts_deps := (length (filteredCells (riskCells s) (calamityMode s)), calamityMode s)\<rparr>"

text \<open>What one run of the effects leaves behind, compared with the state it started from.\<close>

definition after_effects :: "runtime \<Rightarrow> runtime \<Rightarrow> bool" where
  "after_effects s r =
     (selectedCountry r = selectedCountry s \<and> calamityMode r = calamityMode s \<and>
      country_deps r = selectedCountry s \<and>
      state_deps r = (selectedState s, selectedCountry s) \<and>
      alerts_deps r = (length (filteredCells (riskCells s) (calamityMode s)), calamityMode s) \<and>
      (selectedState r = selectedState s \<or> selectedState r = '''' \<and> selectedCountry s = '''') \<and>
      (riskCells r = riskCells s \<or> riskCells r = []))"

section \<open>Concrete inputs\<close>

text \<open>
  The cell of the specification's second scenario (a landslide risk of 72 in the
  central band) and a second cell in the northern band, each as the only record of a
  successful response: the first as a bare list, the second inside a wrapper object.
\<close>

definition central_bounds :: bounds where
  "central_bounds = \<lparr>minLat = 24.78, minLon = 93.91, maxLat = 24.83, maxLon = 93.96\<rparr>"

definition northern_bounds :: bounds where
  "northern_bounds = \<lparr>minLat = 24.9, minLon = 93.91, maxLat = 24.95, maxLon = 93.96\<rparr>"

definition landslide_72 :: hazard where
  "landslide_72 =
     \<lparr>cal_type = ''landslide'', risk_percentage = 72, updated_at = ''2026-01-28T14:24:18.983Z''\<rparr>"

definition landslide_80 :: hazard where
  "landslide_80 =
     \<lparr>cal_type = ''landslide'', risk_percentage = 80, updated_at = ''2026-01-28T14:24:18.983Z''\<rparr>"

definition flood_45 :: hazard where
  "flood_45 =
     \<lparr>cal_type = ''flood'', risk_percentage = 45, updated_at = ''2026-01-28T14:24:18.983Z''\<rparr>"

definition central_response :: response where
  "central_response =
     Response 200 (Some (P_arr [R_obj (Some central_bounds) None (Some landslide_72)]))"

definition northern_response :: response where
  "northern_response =
     Response 200
       (Some (P_obj (Some (P_arr [R_obj (Some northern_bounds) None (Some landslide_80)]))))"

text \<open>A response whose only record has a landslide sub-record and no bounds.\<close>

definition boundless_response :: response where
  "boundless_response = Response 200 (Some (P_arr [R_obj None None (Some landslide_72)]))"

text \<open>A response whose body is the empty object \<open>{}\<close>.\<close>

definition empty_object_response :: response where
  "empty_object_response = Response 200 (Some (P_obj None))"

text \<open>
  The user opens India and Manipur, picks Bishnupur and, before its response is
  there, Chandel.
\<close>

definition to_manipur :: "event list" where
  "to_manipur = [Select_country ''India'', Select_state ''Manipur'']"

definition two_fetches :: "event list" where
  "two_fetches = to_manipur @ [Select_district ''Bishnupur'', Select_district ''Chandel'']"

text \<open>Then the response for Bishnupur arrives.\<close>

definition late_response :: "event list" where
  "late_response = two_fetches @ [Fetch_settled ''Bishnupur'' central_response 1000]"

text \<open>Both responses arrive, each with one landslide cell.\<close>

definition both_responses :: "event list" where
  "both_responses =
     two_fetches @ [Fetch_settled ''Bishnupur'' central_response 1000,
                    Fetch_settled ''Chandel'' northern_response 2000]"

text \<open>The user picks Chandel and its response arrives.\<close>

definition chandel_answer :: "event list" where
  "chandel_answer =
     to_manipur @ [Select_district ''Chandel'',
                   Fetch_settled ''Chandel'' northern_response 1000]"

text \<open>The user opens India and Manipur and then clears the country.\<close>

definition clear_country :: "event list" where
  "clear_country = to_manipur @ [Select_country '''']"

text \<open>The user picks Bishnupur and the server answers \<open>{}\<close>.\<close>

definition empty_object_answer :: "event list" where
  "empty_object_answer =
     to_manipur @ [Select_district ''Bishnupur'',
                   Fetch_settled ''Bishnupur'' empty_object_response 1000]"

text \<open>The alert that the central cell yields in landslide mode.\<close>

definition ring_road_alert :: road_alert where
  "ring_road_alert =
     \<lparr>alert_id = ''imphal-central'', road = ''Imphal City Ring Road'', severity = 72,
      cells = [flat_cell (Some central_bounds) landslide_72],
      message = ''Slope-adjacent road sections at risk'',
      recommendation = ''Monitor conditions. Debris clearance may be required.''\<rparr>"

definition hill_road_alert :: road_alert where
  "hill_road_alert =
     \<lparr>alert_id = ''nh2-north'', road = ''NH-2 (Imphal-Senapati Highway)'', severity = 80,
      cells = [flat_cell (Some northern_bounds) landslide_80],
      message = ''Hill road section may experience landslide blockage'',
      recommendation =
        ''Avoid travel on hill sections. Use alternative valley routes if available.''\<rparr>"

section \<open>The synthesizer\<close>

lemma filter_minLat_ok:
  "\<forall>c\<in>set cs. bounds c \<noteq> None \<Longrightarrow>
   filter_minLat p cs = Inr (filter (spec_minLat_in {m. p m}) cs)"
  by (induction cs) (auto simp: spec_minLat_in_def)

lemma push_alert_spec: "push_alert i r m rc band = spec_alert i r m rc band"
proof (cases band)
  case Nil
  then show ?thesis by (simp add: push_alert_def spec_alert_def)
next
  case (Cons c cs)
  have "fold max (map risk_percentage cs) (risk_percentage c)
        = Max (set (risk_percentage c # map risk_percentage cs))"
    by (simp only: Max.set_eq_fold)
  then show ?thesis using Cons by (simp add: push_alert_def spec_alert_def)
qed

lemma detect_Nil: "detectRoadIntersections [] m = Inr []"
  by (simp add: detectRoadIntersections_def)

text \<open>Only the cells that pass the threshold of 30 have their bounds read.\<close>

lemma detect_refines:
  assumes "\<forall>c\<in>set cs. 30 \<le> risk_percentage c \<longrightarrow> bounds c \<noteq> None"
  shows "detectRoadIntersections cs h = Inr (synthesize_spec cs h)"
proof -
  let ?kept = "filter (\<lambda>c. 30 \<le> risk_percentage c) cs"
  have kept: "\<forall>c\<in>set ?kept. bounds c \<noteq> None"
    using assms by simp
  have same: "filter (\<lambda>c. \<not> risk_percentage c < 30) cs = ?kept"
    by (simp add: not_less)
  show ?thesis
    by (simp add: detectRoadIntersections_def synthesize_spec_def Let_def same
        filter_minLat_ok [OF kept] push_alert_spec spec_north_def spec_central_def
        spec_south_def LANDSLIDE_def FLOOD_def spec_alert_def)
qed

text \<open>
  C5: on cells that carry their bounds, as every RiskCell of the data model does,
  \<open>detectRoadIntersections\<close> returns normally, and returns what the specification's
  algorithm yields: the cells below 30 discarded, the rest split into the three
  latitude bands, one alert per non-empty band of the hazard type, in the fixed
  order, with the band's maximum risk as severity.
\<close>

theorem synthesize_refinement:
  assumes "\<forall>c\<in>set cs. bounds c \<noteq> None"
  shows "detectRoadIntersections cs hazardType = Inr (synthesize_spec cs hazardType)"
  using assms by (intro detect_refines) simp

theorem synthesize_refinement_witness:
  "bounds (flat_cell (Some central_bounds) landslide_72) = Some central_bounds \<and>
   detectRoadIntersections [flat_cell (Some central_bounds) landslide_72] ''landslide''
     = Inr [ring_road_alert] \<and>
   detectRoadIntersections [flat_cell (Some central_bounds) landslide_72] ''flood''
     = Inr [\<lparr>alert_id = ''imphal-valley'', road = ''Imphal Valley Low-lying Roads'',
             severity = 72, cells = [flat_cell (Some central_bounds) landslide_72],
             message = ''Low-lying areas may experience flooding'',
             recommendation = ''Seek higher elevation. Avoid crossing flooded sections.''\<rparr>]"
proof -
  have h: "\<forall>c\<in>set [flat_cell (Some central_bounds) landslide_72]. bounds c \<noteq> None"
    by (simp add: flat_cell_def)
  have "synthesize_spec [flat_cell (Some central_bounds) landslide_72] ''landslide''
        = [ring_road_alert]"
    and "synthesize_spec [flat_cell (Some central_bounds) landslide_72] ''flood''
        = [\<lparr>alert_id = ''imphal-valley'', road = ''Imphal Valley Low-lying Roads'',
             severity = 72, cells = [flat_cell (Some central_bounds) landslide_72],
             message = ''Low-lying areas may experience flooding'',
             recommendation = ''Seek higher elevation. Avoid crossing flooded sections.''\<rparr>]"
    by (simp_all add: synthesize_spec_def spec_alert_def spec_north_def spec_central_def
        spec_south_def spec_minLat_in_def flat_cell_def central_bounds_def landslide_72_def
        ring_road_alert_def)
  with synthesize_refinement [OF h, of "''landslide''"]
    synthesize_refinement [OF h, of "''flood''"]
  show ?thesis
    by (simp add: flat_cell_def)
qed

section \<open>Risk classes and counts\<close>

text \<open>
  C8: a risk percentage below 30 is classified Low (green), one from 30 up to but
  excluding 60 Moderate (orange), one of 60 or more High (red), and conversely; the
  three ranges cover every value and no two of them overlap, so every value has
  exactly one class.
\<close>

theorem risk_classification:
  "(getRiskLevel p = ''Low Risk'' \<longleftrightarrow> p < 30) \<and>
   (getRiskLevel p = ''Moderate Risk'' \<longleftrightarrow> 30 \<le> p \<and> p < 60) \<and>
   (getRiskLevel p = ''High Risk'' \<longleftrightarrow> 60 \<le> p) \<and>
   (getRiskColor p = ''#22c55e'' \<longleftrightarrow> p < 30) \<and>
   (getRiskColor p = ''#f97316'' \<longleftrightarrow> 30 \<le> p \<and> p < 60) \<and>
   (getRiskColor p = ''#ef4444'' \<longleftrightarrow> 60 \<le> p) \<and>
   (p < 30 \<or> 30 \<le> p \<and> p < 60 \<or> 60 \<le> p) \<and>
   \<not> (p < 30 \<and> 30 \<le> p) \<and> \<not> (p < 60 \<and> 60 \<le> p) \<and> \<not> (p < 30 \<and> 60 \<le> p)"
  by (auto simp: getRiskLevel_def getRiskColor_def)

theorem risk_classification_witness:
  "getRiskLevel 0 = ''Low Risk'' \<and> getRiskLevel 29 = ''Low Risk'' \<and>
   getRiskLevel 30 = ''Moderate Risk'' \<and> getRiskLevel 59 = ''Moderate Risk'' \<and>
   getRiskLevel 60 = ''High Risk'' \<and> getRiskLevel 100 = ''High Risk'' \<and>
   getRiskColor 29 = ''#22c55e'' \<and> getRiskColor 30 = ''#f97316'' \<and>
   getRiskColor 60 = ''#ef4444''"
  using risk_classification [of 0] risk_classification [of 29] risk_classification [of 30]
    risk_classification [of 59] risk_classification [of 60] risk_classification [of 100]
  by simp

text \<open>
  C10: for every filtered cell list, the total of \<open>stats\<close> is the number of its
  cells, the high, moderate and low counts are the numbers of positions whose risk is
  at least 60, from 30 up to but excluding 60, and below 30, and the three counts add
  up to the number of cells: the counts partition the list.
\<close>

theorem stats_partition:
  "total_count (stats fc) = length fc \<and>
   highRisk (stats fc) = card {i. i < length fc \<and> 60 \<le> risk_percentage (fc ! i)} \<and>
   moderateRisk (stats fc)
     = card {i. i < length fc \<and> 30 \<le> risk_percentage (fc ! i) \<and> risk_percentage (fc ! i) < 60} \<and>
   lowRisk (stats fc) = card {i. i < length fc \<and> risk_percentage (fc ! i) < 30} \<and>
   highRisk (stats fc) + moderateRisk (stats fc) + lowRisk (stats fc) = length fc"
proof -
  have "length (filter (\<lambda>c. 60 \<le> risk_percentage c) fc)
        + length (filter (\<lambda>c. 30 \<le> risk_percentage c \<and> risk_percentage c < 60) fc)
        + length (filter (\<lambda>c. risk_percentage c < 30) fc) = length fc"
    by (induction fc) auto
  then show ?thesis
    by (simp add: stats_def length_filter_conv_card)
qed

section \<open>Normalization\<close>

lemma forEach_cells_objects:
  "forEach_cells [R_obj b f l. (b, f, l) \<leftarrow> recs] acc =
     Inr (acc @ [flat_cell b h. (b, f, l) \<leftarrow> recs, Some h \<leftarrow> [f, l]])"
  by (induction recs arbitrary: acc) (auto split: option.splits)

lemma forEach_cells_append:
  "forEach_cells (xs @ ys) acc =
     (case forEach_cells xs acc of Inl e \<Rightarrow> Inl e | Inr acc' \<Rightarrow> forEach_cells ys acc')"
  by (induction xs arbitrary: acc) (auto split: sum.splits)

text \<open>
  C6: a payload whose records are objects, bare or wrapped in \<open>status\<close>, is
  normalized into the cells of its records in order, and each record gives one cell
  per hazard sub-record it has, the flood cell before the landslide cell, each with
  the bounds of the record: no cell for a record with neither sub-record, two for a
  record with both.
\<close>

theorem one_cell_per_subrecord:
  "transformedCells_of (P_arr [R_obj b f l. (b, f, l) \<leftarrow> recs])
     = Inr [flat_cell b h. (b, f, l) \<leftarrow> recs, Some h \<leftarrow> [f, l]] \<and>
   transformedCells_of (P_obj (Some (P_arr [R_obj b f l. (b, f, l) \<leftarrow> recs])))
     = Inr [flat_cell b h. (b, f, l) \<leftarrow> recs, Some h \<leftarrow> [f, l]] \<and>
   transform_cell (R_obj bnd None None) = Inr [] \<and>
   transform_cell (R_obj bnd (Some fl) None) = Inr [flat_cell bnd fl] \<and>
   transform_cell (R_obj bnd None (Some ls)) = Inr [flat_cell bnd ls] \<and>
   transform_cell (R_obj bnd (Some fl) (Some ls)) = Inr [flat_cell bnd fl, flat_cell bnd ls] \<and>
   bounds (flat_cell bnd fl) = bnd \<and> hazard.truncate (flat_cell bnd fl) = fl"
  by (simp add: transformedCells_of_def forEach_cells_objects flat_cell_def
      hazard.truncate_def)

text \<open>
  C4, as the specification states it, fails: a record without bounds that has a flood
  sub-record is not dropped; it contributes a cell, whose bounds are absent.
\<close>

theorem missing_bounds_record_not_dropped:
  "transformedCells_of (P_arr [R_obj None (Some flood_45) None])
     = Inr [flat_cell None flood_45] \<and>
   transformedCells_of (P_arr [R_obj None (Some flood_45) None]) \<noteq> Inr []"
  by (simp add: transformedCells_of_def)

text \<open>
  C4, amended: a record whose bounds are missing is kept.  It contributes one cell
  per hazard sub-record it has, with absent bounds; the records before and after it
  are normalized as usual, and normalization returns normally, for a bare list and
  for a list wrapped in \<open>status\<close> alike.
\<close>

theorem missing_bounds_record_kept:
  "transformedCells_of
     (P_arr ([R_obj b f l. (b, f, l) \<leftarrow> before] @ [R_obj None fl ls]
             @ [R_obj b f l. (b, f, l) \<leftarrow> after]))
   = Inr ([flat_cell b h. (b, f, l) \<leftarrow> before, Some h \<leftarrow> [f, l]]
          @ [flat_cell None h. Some h \<leftarrow> [fl, ls]]
          @ [flat_cell b h. (b, f, l) \<leftarrow> after, Some h \<leftarrow> [f, l]]) \<and>
   transformedCells_of
     (P_obj (Some (P_arr ([R_obj b f l. (b, f, l) \<leftarrow> before] @ [R_obj None fl ls]
                          @ [R_obj b f l. (b, f, l) \<leftarrow> after]))))
   = Inr ([flat_cell b h. (b, f, l) \<leftarrow> before, Some h \<leftarrow> [f, l]]
          @ [flat_cell None h. Some h \<leftarrow> [fl, ls]]
          @ [flat_cell b h. (b, f, l) \<leftarrow> after, Some h \<leftarrow> [f, l]])"
  by (simp add: transformedCells_of_def forEach_cells_append forEach_cells_objects
      split: option.splits)

section \<open>Rendering and effects\<close>

lemma alerts_effect_alt:
  "alerts_effect snap acc =
     (case fresh_alerts snap of Inl e \<Rightarrow> Inl e | Inr al \<Rightarrow> Inr (acc\<lparr>roadAlerts := al\<rparr>))"
  by (simp add: alerts_effect_def fresh_alerts_def Let_def detect_Nil)

lemma run_effects_alt:
  "run_effects s =
     (if (length (filteredCells (riskCells s) (calamityMode s)), calamityMode s) \<noteq> alerts_deps s
      then (case fresh_alerts s of
              Inl e \<Rightarrow> s\<lparr>unmounted := True\<rparr>
            | Inr al \<Rightarrow> with_deps s ((nav_updates s)\<lparr>roadAlerts := al\<rparr>))
      else with_deps s (nav_updates s))"
  by (simp add: run_effects_def nav_updates_def alerts_effect_alt with_deps_def Let_def
      split: sum.splits)

lemma nav_updates_frame:
  "selectedCountry (nav_updates s) = selectedCountry s"
  "calamityMode (nav_updates s) = calamityMode s"
  "selectedRoadAlert (nav_updates s) = selectedRoadAlert s"
  "lastUpdated (nav_updates s) = lastUpdated s"
  "loading (nav_updates s) = loading s"
  "error (nav_updates s) = error s"
  "unmounted (nav_updates s) = unmounted s"
  "awaiting (nav_updates s) = awaiting s"
  "country_deps (nav_updates s) = country_deps s"
  "state_deps (nav_updates s) = state_deps s"
  "alerts_deps (nav_updates s) = alerts_deps s"
  by (simp_all add: nav_updates_def country_effect_def state_effect_def Let_def)

lemma nav_updates_state:
  "selectedState (nav_updates s) = selectedState s \<or>
   selectedState (nav_updates s) = '''' \<and> selectedCountry s = ''''"
  by (simp add: nav_updates_def country_effect_def state_effect_def Let_def)

lemma nav_updates_cells:
  "riskCells (nav_updates s) = riskCells s \<or> riskCells (nav_updates s) = []"
  by (simp add: nav_updates_def country_effect_def state_effect_def Let_def)

lemma nav_updates_quiet:
  "country_deps s = selectedCountry s \<Longrightarrow>
   state_deps s = (selectedState s, selectedCountry s) \<or>
     selectedState s = '''' \<and> selectedCountry s = '''' \<Longrightarrow>
   nav_updates s = s"
  by (auto simp add: nav_updates_def country_effect_def state_effect_def Let_def)

lemma run_effects_after:
  assumes "\<not> unmounted (run_effects s)"
  shows "after_effects s (run_effects s)"
proof (cases "(length (filteredCells (riskCells s) (calamityMode s)), calamityMode s)
               \<noteq> alerts_deps s")
  case False
  then have "run_effects s = with_deps s (nav_updates s)"
    by (simp add: run_effects_alt)
  then show ?thesis
    using nav_updates_state [of s] nav_updates_cells [of s]
    by (simp add: after_effects_def with_deps_def nav_updates_frame)
next
  case True
  show ?thesis
  proof (cases "fresh_alerts s")
    case (Inl e)
    with True have "run_effects s = s\<lparr>unmounted := True\<rparr>"
      by (simp add: run_effects_alt)
    with assms show ?thesis by simp
  next
    case (Inr al)
    with True have "run_effects s = with_deps s ((nav_updates s)\<lparr>roadAlerts := al\<rparr>)"
      by (simp add: run_effects_alt)
    then show ?thesis
      using nav_updates_state [of s] nav_updates_cells [of s]
      by (simp add: after_effects_def with_deps_def nav_updates_frame)
  qed
qed

text \<open>A second run of the effects can only empty the alerts.\<close>

lemma second_round:
  assumes "after_effects s r"
  shows "\<exists>al. run_effects r = with_deps r (r\<lparr>roadAlerts := al\<rparr>)"
proof -
  have nav: "nav_updates r = r"
    using assms by (intro nav_updates_quiet) (auto simp: after_effects_def)
  show ?thesis
  proof (cases "(length (filteredCells (riskCells r) (calamityMode r)), calamityMode r)
                 \<noteq> alerts_deps r")
    case False
    then have "run_effects r = with_deps r (r\<lparr>roadAlerts := roadAlerts r\<rparr>)"
      by (simp add: run_effects_alt nav)
    then show ?thesis by blast
  next
    case True
    with assms have "riskCells r = []"
      by (auto simp: after_effects_def)
    then have "fresh_alerts r = Inr []"
      by (simp add: fresh_alerts_def filteredCells_def detect_Nil)
    with True have "run_effects r = with_deps r (r\<lparr>roadAlerts := []\<rparr>)"
      by (simp add: run_effects_alt nav)
    then show ?thesis by blast
  qed
qed

lemma with_deps_settles:
  "\<not> effects_pending (with_deps r (r\<lparr>roadAlerts := al\<rparr>))"
  "render_throws (with_deps r (r\<lparr>roadAlerts := al\<rparr>)) = render_throws r"
  "unmounted (with_deps r (r\<lparr>roadAlerts := al\<rparr>)) = unmounted r"
  by (simp_all add: effects_pending_def deps_of_def with_deps_def render_throws_def)

lemma render_round_fixed:
  "unmounted s \<or> \<not> render_throws s \<and> \<not> effects_pending s \<Longrightarrow> render_round s = s"
  by (auto simp: render_round_def)

text \<open>
  The three rounds of \<open>commit\<close> are enough: one more render changes nothing, so the
  state that \<open>commit\<close> returns is the one React comes to rest in.
\<close>

lemma commit_fixed: "render_round (commit s) = commit s"
proof -
  have fix1: "render_round (render_round (render_round t)) = render_round (render_round t)"
    if "after_effects t0 t" for t t0
  proof (cases "unmounted t \<or> render_throws t")
    case True
    then show ?thesis by (auto simp: render_round_def)
  next
    case False
    show ?thesis
    proof (cases "effects_pending t")
      case False
      with \<open>\<not> (unmounted t \<or> render_throws t)\<close> have "render_round t = t"
        by (simp add: render_round_def)
      then show ?thesis by simp
    next
      case True
      from second_round [OF that] obtain al
        where "run_effects t = with_deps t (t\<lparr>roadAlerts := al\<rparr>)" by blast
      with True False have rt: "render_round t = with_deps t (t\<lparr>roadAlerts := al\<rparr>)"
        by (simp add: render_round_def)
      have "render_round (render_round t) = render_round t"
        unfolding rt using False
        by (intro render_round_fixed) (simp add: with_deps_settles)
      then show ?thesis by simp
    qed
  qed
  show ?thesis
  proof (cases "unmounted s \<or> render_throws s")
    case True
    then show ?thesis by (auto simp: commit_def render_round_def)
  next
    case False
    show ?thesis
    proof (cases "effects_pending s")
      case False
      with \<open>\<not> (unmounted s \<or> render_throws s)\<close> have "render_round s = s"
        by (simp add: render_round_def)
      then show ?thesis by (simp add: commit_def)
    next
      case True
      with False have rs: "render_round s = run_effects s"
        by (simp add: render_round_def)
      show ?thesis
      proof (cases "unmounted (run_effects s)")
        case True
        then show ?thesis by (simp add: commit_def rs render_round_def)
      next
        case False
        from fix1 [OF run_effects_after [OF False]]
        show ?thesis by (simp add: commit_def rs)
      qed
    qed
  qed
qed

lemma run_effects_changes:
  "effects_pending s \<Longrightarrow> \<not> unmounted s \<Longrightarrow> run_effects s \<noteq> s"
proof
  assume p: "effects_pending s" and u: "\<not> unmounted s" and e: "run_effects s = s"
  then have "\<not> unmounted (run_effects s)" by simp
  from run_effects_after [OF this] e p show False
    by (simp add: after_effects_def effects_pending_def deps_of_def)
qed

lemma commit_settled: "unmounted (commit s) \<or> settled (commit s)"
proof (cases "unmounted (commit s)")
  case True
  then show ?thesis by simp
next
  case u: False
  have f: "render_round (commit s) = commit s" by (rule commit_fixed)
  have r: "\<not> render_throws (commit s)"
  proof
    assume "render_throws (commit s)"
    with u have "unmounted (render_round (commit s))"
      by (simp add: render_round_def)
    with f u show False by simp
  qed
  have "\<not> effects_pending (commit s)"
  proof
    assume p: "effects_pending (commit s)"
    with u r have "render_round (commit s) = run_effects (commit s)"
      by (simp add: render_round_def)
    with f run_effects_changes [OF p u] show False by simp
  qed
  with u r show ?thesis by (simp add: settled_def)
qed

lemma some_throws_bounds: "\<forall>x\<in>set xs. bounds x \<noteq> None \<Longrightarrow> \<not> some_throws xs b"
  by (induction xs) auto

lemma render_ok_bounds:
  "\<not> render_throws s \<Longrightarrow>
   \<forall>c\<in>set (filteredCells (riskCells s) (calamityMode s)). bounds c \<noteq> None"
  by (auto simp: render_throws_def list_ex_iff rectangle_throws_def split: option.splits)

lemma render_ok_fresh:
  "\<not> render_throws s \<Longrightarrow>
   fresh_alerts s =
     Inr (synthesize_spec (filteredCells (riskCells s) (calamityMode s)) (calamityMode s))"
  unfolding fresh_alerts_def
  by (rule detect_refines) (use render_ok_bounds in blast)

text \<open>
  A commit after a handler that left country and state alone: only the third effect
  can run, and it runs when the number of filtered cells or the mode has changed.
\<close>

lemma commit_quiet:
  assumes "\<not> unmounted h" "\<not> render_throws h"
    and "country_deps h = selectedCountry h"
    and "state_deps h = (selectedState h, selectedCountry h)"
  shows "commit h =
     (if alerts_deps h = (length (filteredCells (riskCells h) (calamityMode h)), calamityMode h)
      then h
      else with_deps h (h\<lparr>roadAlerts :=
             synthesize_spec (filteredCells (riskCells h) (calamityMode h)) (calamityMode h)\<rparr>))"
proof (cases "alerts_deps h = (length (filteredCells (riskCells h) (calamityMode h)), calamityMode h)")
  case True
  with assms have "\<not> effects_pending h"
    by (simp add: effects_pending_def deps_of_def)
  with assms have "render_round h = h"
    by (simp add: render_round_def)
  with True show ?thesis by (simp add: commit_def)
next
  case False
  let ?t = "with_deps h (h\<lparr>roadAlerts :=
             synthesize_spec (filteredCells (riskCells h) (calamityMode h)) (calamityMode h)\<rparr>)"
  from False assms have "effects_pending h"
    by (auto simp add: effects_pending_def deps_of_def)
  moreover have "nav_updates h = h"
    using assms by (intro nav_updates_quiet) simp_all
  ultimately have r1: "render_round h = ?t"
    using assms False render_ok_fresh [OF assms(2)]
    by (simp add: render_round_def run_effects_alt)
  have "render_round ?t = ?t"
    using assms by (intro render_round_fixed) (simp add: with_deps_settles)
  with r1 False show ?thesis by (simp add: commit_def)
qed

lemma commit_render_throws:
  "\<not> unmounted h \<Longrightarrow> render_throws h \<Longrightarrow> commit h = h\<lparr>unmounted := True\<rparr>"
  by (simp add: commit_def render_round_def)

section \<open>Events\<close>

lemma settled_deps:
  assumes "settled s"
  shows "country_deps s = selectedCountry s"
    and "state_deps s = (selectedState s, selectedCountry s)"
    and "alerts_deps s = (length (filteredCells (riskCells s) (calamityMode s)), calamityMode s)"
  using assms by (auto simp: settled_def effects_pending_def deps_of_def)

lemma step_settled: "\<not> unmounted s \<Longrightarrow> unmounted (step s e) \<or> settled (step s e)"
  by (simp add: step_def commit_settled)

lemma resume_success:
  assumes "fetch_outcome resp = Inr cs"
  shows "riskCells (fetchDisasterData_resume d resp now s) = cs"
    and "lastUpdated (fetchDisasterData_resume d resp now s) = Some now"
    and "loading (fetchDisasterData_resume d resp now s) = False"
    and "error (fetchDisasterData_resume d resp now s) = error s"
    and "roadAlerts (fetchDisasterData_resume d resp now s) = roadAlerts s"
    and "selectedCountry (fetchDisasterData_resume d resp now s) = selectedCountry s"
    and "selectedState (fetchDisasterData_resume d resp now s) = selectedState s"
    and "selectedDistrict (fetchDisasterData_resume d resp now s) = selectedDistrict s"
    and "calamityMode (fetchDisasterData_resume d resp now s) = calamityMode s"
    and "selectedRoadAlert (fetchDisasterData_resume d resp now s) = selectedRoadAlert s"
    and "country_deps (fetchDisasterData_resume d resp now s) = country_deps s"
    and "state_deps (fetchDisasterData_resume d resp now s) = state_deps s"
    and "alerts_deps (fetchDisasterData_resume d resp now s) = alerts_deps s"
    and "unmounted (fetchDisasterData_resume d resp now s) = unmounted s"
  using assms by (simp_all add: fetchDisasterData_resume_def Let_def split: option.splits)

lemma resume_failure:
  assumes "fetch_outcome resp = Inl err"
  shows "fetchDisasterData_resume d resp now s = s\<lparr>error := Some err, loading := False\<rparr>"
  using assms by (simp add: fetchDisasterData_resume_def)

subsection \<open>What holds of the navigation and alert effects\<close>

lemma settled_init: "settled init"
  by code_simp

text \<open>Every state the component reaches is at rest, unless it has been unmounted.\<close>

lemma run_settled: "unmounted (run init es) \<or> settled (run init es)"
proof (induction es rule: rev_induct)
  case Nil
  show ?case by (simp add: run_def settled_init)
next
  case (snoc e es)
  have r: "run init (es @ [e]) = step (run init es) e"
    by (simp add: run_def)
  show ?case
  proof (cases "unmounted (run init es)")
    case True
    then show ?thesis by (simp add: r step_def)
  next
    case False
    then show ?thesis unfolding r by (rule step_settled)
  qed
qed

text \<open>
  After a first run of the effects, rendering to rest changes at most the alerts,
  and those only by emptying them.
\<close>

lemma rest_after_effects:
  assumes "after_effects s r" and "\<not> unmounted r" and "\<not> render_throws r"
  shows "\<exists>al. render_round (render_round r) = with_deps r (r\<lparr>roadAlerts := al\<rparr>) \<and>
              (al = roadAlerts r \<or> al = [])"
proof (cases "effects_pending r")
  case False
  with assms have "render_round r = r"
    by (simp add: render_round_def)
  moreover from False have e: "selectedCountry r = country_deps r"
    "(selectedState r, selectedCountry r) = state_deps r"
    "(length (filteredCells (riskCells r) (calamityMode r)), calamityMode r) = alerts_deps r"
    by (auto simp: effects_pending_def deps_of_def)
  then have "with_deps r r = r"
    unfolding with_deps_def by (simp only: e) simp
  ultimately have "render_round (render_round r) = with_deps r (r\<lparr>roadAlerts := roadAlerts r\<rparr>)"
    by simp
  then show ?thesis by blast
next
  case True
  have nav: "nav_updates r = r"
    using assms(1) by (intro nav_updates_quiet) (auto simp: after_effects_def)
  have "\<exists>al. run_effects r = with_deps r (r\<lparr>roadAlerts := al\<rparr>) \<and> (al = roadAlerts r \<or> al = [])"
  proof (cases "(length (filteredCells (riskCells r) (calamityMode r)), calamityMode r)
                 \<noteq> alerts_deps r")
    case False
    then have "run_effects r = with_deps r (r\<lparr>roadAlerts := roadAlerts r\<rparr>)"
      by (simp add: run_effects_alt nav)
    then show ?thesis by blast
  next
    case True
    with assms(1) have "riskCells r = []"
      by (auto simp: after_effects_def)
    then have "fresh_alerts r = Inr []"
      by (simp add: fresh_alerts_def filteredCells_def detect_Nil)
    with True have "run_effects r = with_deps r (r\<lparr>roadAlerts := []\<rparr>)"
      by (simp add: run_effects_alt nav)
    then show ?thesis by blast
  qed
  then obtain al where al: "run_effects r = with_deps r (r\<lparr>roadAlerts := al\<rparr>)"
    "al = roadAlerts r \<or> al = []" by blast
  from True assms al(1) have r1: "render_round r = with_deps r (r\<lparr>roadAlerts := al\<rparr>)"
    by (simp add: render_round_def)
  have "render_round (with_deps r (r\<lparr>roadAlerts := al\<rparr>)) = with_deps r (r\<lparr>roadAlerts := al\<rparr>)"
    using assms by (intro render_round_fixed) (simp add: with_deps_settles)
  with r1 al(2) show ?thesis by auto
qed

text \<open>
  Clearing the state while India stays selected: the view returns to India, and the
  district, the cells and the alerts are cleared.
\<close>

lemma clearing_state_resets:
  assumes "settled s" and "selectedCountry s = ''India''" and "selectedState s \<noteq> ''''"
  shows "let s' = step s (Select_state '''') in
           \<not> unmounted s' \<and> selectedCountry s' = ''India'' \<and> selectedState s' = '''' \<and>
           selectedDistrict s' = '''' \<and> riskCells s' = [] \<and> roadAlerts s' = [] \<and>
           mapCenter s' = center MAP_VIEWS_india \<and> mapZoom s' = zoom MAP_VIEWS_india"
proof -
  let ?h = "s\<lparr>selectedState := ''''\<rparr>"
  note d = settled_deps [OF assms(1)]
  have s0: "\<not> unmounted s" "\<not> render_throws s"
    using assms(1) by (simp_all add: settled_def)
  have h0: "\<not> unmounted ?h" "\<not> render_throws ?h" "effects_pending ?h"
    using s0 assms(3) by (simp_all add: render_throws_def effects_pending_def deps_of_def d)
  let ?n = "?h\<lparr>mapCenter := center MAP_VIEWS_india, mapZoom := zoom MAP_VIEWS_india,
               selectedDistrict := '''', riskCells := [], roadAlerts := []\<rparr>"
  have nav: "nav_updates ?h = ?n"
    using assms(2,3) by (simp add: nav_updates_def state_effect_def d Let_def)
  have r1: "render_round ?h = with_deps ?h ?n"
    using h0 by (simp add: render_round_def run_effects_alt nav d)
  have ae: "after_effects ?h (with_deps ?h ?n)"
    using run_effects_after [of ?h] h0 r1 by (simp add: render_round_def with_deps_def)
  have ok: "\<not> unmounted (with_deps ?h ?n)" "\<not> render_throws (with_deps ?h ?n)"
    using s0 by (simp_all add: with_deps_def render_throws_def filteredCells_def)
  from rest_after_effects [OF ae ok] obtain al
    where "render_round (render_round (with_deps ?h ?n))
             = with_deps (with_deps ?h ?n) ((with_deps ?h ?n)\<lparr>roadAlerts := al\<rparr>)"
      and "al = roadAlerts (with_deps ?h ?n) \<or> al = []" by blast
  then show ?thesis
    using s0 assms(2) by (auto simp add: step_def commit_def r1 Let_def with_deps_def)
qed

text \<open>
  Clearing the district: the view returns to Manipur, the cells and the alerts are
  cleared, country and state stay.
\<close>

lemma clearing_district_resets:
  assumes "settled s"
  shows "let s' = step s (Select_district '''') in
           \<not> unmounted s' \<and> selectedCountry s' = selectedCountry s \<and>
           selectedState s' = selectedState s \<and>
           selectedDistrict s' = '''' \<and> riskCells s' = [] \<and> roadAlerts s' = [] \<and>
           mapCenter s' = center MAP_VIEWS_manipur \<and> mapZoom s' = zoom MAP_VIEWS_manipur"
proof -
  let ?h = "s\<lparr>selectedDistrict := '''', riskCells := [], roadAlerts := [],
              mapCenter := center MAP_VIEWS_manipur, mapZoom := zoom MAP_VIEWS_manipur\<rparr>"
  note d = settled_deps [OF assms(1)]
  have s0: "\<not> unmounted s"
    using assms(1) by (simp add: settled_def)
  have h: "handleDistrictChange '''' s = ?h"
    by (simp add: handleDistrictChange_def)
  have u: "\<not> unmounted ?h" and r: "\<not> render_throws ?h"
    using s0 by (simp_all add: render_throws_def filteredCells_def)
  have sy: "synthesize_spec [] m = []" for m
    by (simp add: synthesize_spec_def spec_alert_def spec_north_def spec_central_def
        spec_south_def)
  from commit_quiet [OF u r] s0 show ?thesis
    by (simp add: step_def h Let_def d with_deps_def filteredCells_def sy)
qed

text \<open>
  Clearing the country while no state is selected: the view returns to the World.
\<close>

lemma clearing_country_without_state:
  assumes "settled s" and "selectedCountry s \<noteq> ''''" and "selectedState s = ''''"
  shows "let s' = step s (Select_country '''') in
           \<not> unmounted s' \<and> selectedCountry s' = '''' \<and> selectedState s' = '''' \<and>
           selectedDistrict s' = '''' \<and> riskCells s' = [] \<and> roadAlerts s' = [] \<and>
           mapCenter s' = center MAP_VIEWS_world \<and> mapZoom s' = zoom MAP_VIEWS_world"
proof -
  let ?h = "s\<lparr>selectedCountry := ''''\<rparr>"
  note d = settled_deps [OF assms(1)]
  have s0: "\<not> unmounted s" "\<not> render_throws s"
    using assms(1) by (simp_all add: settled_def)
  have h0: "\<not> unmounted ?h" "\<not> render_throws ?h" "effects_pending ?h"
    using s0 assms(2) by (simp_all add: render_throws_def effects_pending_def deps_of_def d)
  let ?n = "?h\<lparr>mapCenter := center MAP_VIEWS_world, mapZoom := zoom MAP_VIEWS_world,
               selectedState := '''', selectedDistrict := '''', riskCells := [], roadAlerts := []\<rparr>"
  have nav: "nav_updates ?h = ?n"
    using assms(2,3) by (simp add: nav_updates_def country_effect_def state_effect_def d Let_def)
  have r1: "render_round ?h = with_deps ?h ?n"
    using h0 by (simp add: render_round_def run_effects_alt nav d)
  have ae: "after_effects ?h (with_deps ?h ?n)"
    using run_effects_after [of ?h] h0 r1 by (simp add: render_round_def with_deps_def)
  have ok: "\<not> unmounted (with_deps ?h ?n)" "\<not> render_throws (with_deps ?h ?n)"
    using s0 by (simp_all add: with_deps_def render_throws_def filteredCells_def)
  from rest_after_effects [OF ae ok] obtain al
    where "render_round (render_round (with_deps ?h ?n))
             = with_deps (with_deps ?h ?n) ((with_deps ?h ?n)\<lparr>roadAlerts := al\<rparr>)"
      and "al = roadAlerts (with_deps ?h ?n) \<or> al = []" by blast
  then show ?thesis
    using s0 by (auto simp add: step_def commit_def r1 Let_def with_deps_def)
qed

text \<open>
  Switching the hazard mode recomputes the alerts from the cells of the new mode.
\<close>

lemma mode_switch_recomputes:
  assumes "settled s" and "calamityMode s \<noteq> m" and "e = (if m = FLOOD then Click_flood else Click_landslide)"
    and "m = FLOOD \<or> m = LANDSLIDE"
  shows "let s' = step s e in
           unmounted s' \<or>
           calamityMode s' = m \<and> riskCells s' = riskCells s \<and>
           roadAlerts s' = synthesize_spec (filteredCells (riskCells s) m) m"
proof -
  let ?h = "s\<lparr>calamityMode := m\<rparr>"
  note d = settled_deps [OF assms(1)]
  have s0: "\<not> unmounted s"
    using assms(1) by (simp add: settled_def)
  have h: "handler e s = ?h"
    using assms(3,4) by (auto simp: FLOOD_def LANDSLIDE_def)
  have u: "\<not> unmounted ?h" using s0 by simp
  show ?thesis
  proof (cases "render_throws ?h")
    case True
    from commit_render_throws [OF u True] s0 show ?thesis
      by (simp add: step_def h Let_def)
  next
    case False
    from commit_quiet [OF u False] s0 assms(2) show ?thesis
      by (simp add: step_def h Let_def d with_deps_def)
  qed
qed

subsection \<open>Responses that arrive late\<close>

text \<open>
  C1, as the specification states it, fails.  Bishnupur's fetch is outstanding when
  the user selects Chandel; when Bishnupur's response arrives, its cell, the alert
  computed from it and the time of arrival are displayed, although Chandel is
  selected and Chandel's own fetch is still outstanding.
\<close>

theorem late_response_applied:
  "feasible init late_response \<and>
   selectedDistrict (run init two_fetches) = ''Chandel'' \<and>
   awaiting (run init two_fetches) = [''Bishnupur'', ''Chandel''] \<and>
   riskCells (run init two_fetches) = [] \<and>
   lastUpdated (run init two_fetches) = None \<and>
   selectedDistrict (run init late_response) = ''Chandel'' \<and>
   awaiting (run init late_response) = [''Chandel''] \<and>
   riskCells (run init late_response) = [flat_cell (Some central_bounds) landslide_72] \<and>
   roadAlerts (run init late_response) = [ring_road_alert] \<and>
   lastUpdated (run init late_response) = Some 1000"
  by code_simp

text \<open>
  C1, amended: the result of a superseded fetch is not discarded.  When the response
  of an outstanding fetch arrives, it is applied to the state whichever district is
  selected by then.  A successful one replaces the RiskCells by its cells and the
  timestamp by the time of arrival and leaves the error alone; the page is unmounted
  exactly if drawing the new cells throws, and if it stays mounted and the number of
  cells of the current hazard mode has changed, the RoadAlerts are recomputed from the
  new cells.  A failed one sets the error and leaves RiskCells, RoadAlerts and
  timestamp alone.  (Nothing is said of the RoadAlerts after a successful response
  that leaves the number of cells of the current mode as it was.)
\<close>

theorem response_applied_on_arrival:
  assumes "settled s" and "district \<in> set (awaiting s)"
  shows
    "let s' = step s (Fetch_settled district resp now) in
       (fetch_outcome resp = Inr cs \<longrightarrow>
          riskCells s' = cs \<and> lastUpdated s' = Some now \<and> error s' = error s \<and>
          selectedDistrict s' = selectedDistrict s \<and>
          (unmounted s' \<longleftrightarrow> render_throws (s\<lparr>riskCells := cs\<rparr>)) \<and>
          (\<not> unmounted s' \<and>
           length (filteredCells cs (calamityMode s))
             \<noteq> length (filteredCells (riskCells s) (calamityMode s)) \<longrightarrow>
             roadAlerts s' = synthesize_spec (filteredCells cs (calamityMode s)) (calamityMode s)))
       \<and>
       (fetch_outcome resp = Inl err \<longrightarrow>
          error s' = Some err \<and> riskCells s' = riskCells s \<and> roadAlerts s' = roadAlerts s \<and>
          lastUpdated s' = lastUpdated s \<and> selectedDistrict s' = selectedDistrict s \<and>
          settled s')"
proof -
  let ?s0 = "s\<lparr>awaiting := remove1 district (awaiting s)\<rparr>"
  let ?h = "fetchDisasterData_resume district resp now ?s0"
  from assms have st: "step s (Fetch_settled district resp now) = commit ?h"
    by (simp add: step_def settled_def)
  note d = settled_deps [OF assms(1)]
  have s0: "\<not> unmounted s" "\<not> render_throws s"
    using assms(1) by (simp_all add: settled_def)
  have success:
    "riskCells (commit ?h) = cs \<and> lastUpdated (commit ?h) = Some now \<and>
     error (commit ?h) = error s \<and> selectedDistrict (commit ?h) = selectedDistrict s \<and>
     (unmounted (commit ?h) \<longleftrightarrow> render_throws (s\<lparr>riskCells := cs\<rparr>)) \<and>
     (\<not> unmounted (commit ?h) \<and>
      length (filteredCells cs (calamityMode s))
        \<noteq> length (filteredCells (riskCells s) (calamityMode s)) \<longrightarrow>
        roadAlerts (commit ?h)
          = synthesize_spec (filteredCells cs (calamityMode s)) (calamityMode s))"
    if ok: "fetch_outcome resp = Inr cs"
  proof -
    note f = resume_success [OF ok, of district now ?s0]
    have u: "\<not> unmounted ?h" using s0 by (simp add: f)
    have rt: "render_throws ?h = render_throws (s\<lparr>riskCells := cs\<rparr>)"
      by (simp add: render_throws_def f)
    show ?thesis
    proof (cases "render_throws ?h")
      case True
      from commit_render_throws [OF u True] True rt show ?thesis
        by (simp add: f)
    next
      case False
      have "commit ?h =
         (if alerts_deps ?h = (length (filteredCells (riskCells ?h) (calamityMode ?h)), calamityMode ?h)
          then ?h
          else with_deps ?h (?h\<lparr>roadAlerts :=
             synthesize_spec (filteredCells (riskCells ?h) (calamityMode ?h)) (calamityMode ?h)\<rparr>))"
        by (rule commit_quiet [OF u False]) (simp_all add: f d)
      with False rt u show ?thesis
        by (auto simp add: f d with_deps_def)
    qed
  qed
  have failure:
    "error (commit ?h) = Some err \<and> riskCells (commit ?h) = riskCells s \<and>
     roadAlerts (commit ?h) = roadAlerts s \<and> lastUpdated (commit ?h) = lastUpdated s \<and>
     selectedDistrict (commit ?h) = selectedDistrict s \<and> settled (commit ?h)"
    if bad: "fetch_outcome resp = Inl err"
  proof -
    have h: "?h = ?s0\<lparr>error := Some err, loading := False\<rparr>"
      by (rule resume_failure [OF bad])
    have u: "\<not> unmounted ?h" and r: "\<not> render_throws ?h"
      using s0 by (simp_all add: h render_throws_def)
    have "commit ?h = ?h"
      using commit_quiet [OF u r] by (simp add: h d)
    with u r show ?thesis
      by (simp add: h settled_def effects_pending_def deps_of_def d)
  qed
  from success failure show ?thesis
    by (simp add: st Let_def)
qed

theorem response_applied_on_arrival_witness:
  "settled (run init two_fetches) \<and>
   ''Bishnupur'' \<in> set (awaiting (run init two_fetches)) \<and>
   selectedDistrict (run init two_fetches) = ''Chandel'' \<and>
   fetch_outcome central_response = Inr [flat_cell (Some central_bounds) landslide_72] \<and>
   riskCells (step (run init two_fetches) (Fetch_settled ''Bishnupur'' central_response 1000))
     = [flat_cell (Some central_bounds) landslide_72] \<and>
   lastUpdated (step (run init two_fetches) (Fetch_settled ''Bishnupur'' central_response 1000))
     = Some 1000 \<and>
   \<not> unmounted (step (run init two_fetches) (Fetch_settled ''Bishnupur'' central_response 1000)) \<and>
   roadAlerts (step (run init two_fetches) (Fetch_settled ''Bishnupur'' central_response 1000))
     = [ring_road_alert] \<and>
   fetch_outcome boundless_response = Inr [flat_cell None landslide_72] \<and>
   riskCells (step (run init two_fetches) (Fetch_settled ''Bishnupur'' boundless_response 1000))
     = [flat_cell None landslide_72] \<and>
   unmounted (step (run init two_fetches) (Fetch_settled ''Bishnupur'' boundless_response 1000)) \<and>
   fetch_outcome Rejected = Inl NetworkError \<and>
   error (step (run init two_fetches) (Fetch_settled ''Bishnupur'' Rejected 1000))
     = Some NetworkError \<and>
   riskCells (step (run init two_fetches) (Fetch_settled ''Bishnupur'' Rejected 1000)) = []"
proof -
  have s: "settled (run init two_fetches)"
    by code_simp
  have a: "''Bishnupur'' \<in> set (awaiting (run init two_fetches))"
    by code_simp
  have d: "selectedDistrict (run init two_fetches) = ''Chandel''"
    by code_simp
  have o: "fetch_outcome central_response = Inr [flat_cell (Some central_bounds) landslide_72]"
    by code_simp
  have r: "\<not> render_throws
     ((run init two_fetches)\<lparr>riskCells := [flat_cell (Some central_bounds) landslide_72]\<rparr>)"
    by code_simp
  have c: "riskCells (run init two_fetches) = []"
    "calamityMode (run init two_fetches) = ''landslide''"
    by code_simp+
  have fc: "filteredCells [flat_cell (Some central_bounds) landslide_72] ''landslide''
      = [flat_cell (Some central_bounds) landslide_72]"
    "filteredCells [] ''landslide'' = []"
    by (simp_all add: filteredCells_def flat_cell_def landslide_72_def)
  have sy: "synthesize_spec [flat_cell (Some central_bounds) landslide_72] ''landslide''
     = [ring_road_alert]"
    by (simp add: synthesize_spec_def spec_alert_def spec_north_def spec_central_def
        spec_minLat_in_def flat_cell_def central_bounds_def landslide_72_def
        ring_road_alert_def)
  have n: "fetch_outcome Rejected = Inl NetworkError"
    by simp
  have ob: "fetch_outcome boundless_response = Inr [flat_cell None landslide_72]"
    by code_simp
  have rb: "render_throws ((run init two_fetches)\<lparr>riskCells := [flat_cell None landslide_72]\<rparr>)"
    by code_simp
  from response_applied_on_arrival [OF s a, where resp = central_response
      and cs = "[flat_cell (Some central_bounds) landslide_72]" and now = 1000
      and err = NetworkError]
    response_applied_on_arrival [OF s a, where resp = boundless_response
      and cs = "[flat_cell None landslide_72]" and now = 1000 and err = NetworkError]
    response_applied_on_arrival [OF s a, where resp = Rejected and cs = "[]"
      and now = 1000 and err = NetworkError]
    s a d o r c sy n ob rb
  show ?thesis
    by (simp add: Let_def fc)
qed

subsection \<open>Alerts, payloads and navigation\<close>

text \<open>
  C2 fails on the code.  Bishnupur's response and then Chandel's arrive, each with
  one landslide cell.  The second replaces the cells by a set of the same size, the
  effect that recomputes the alerts does not run, and the alert shown is still the
  one computed from Bishnupur's cell, while the synthesizer on the current cells
  yields another.
\<close>

theorem alerts_stale_after_replacement:
  "feasible init both_responses \<and> settled (run init both_responses) \<and>
   riskCells (run init both_responses) = [flat_cell (Some northern_bounds) landslide_80] \<and>
   calamityMode (run init both_responses) = ''landslide'' \<and>
   roadAlerts (run init both_responses) = [ring_road_alert] \<and>
   detectRoadIntersections
     (filteredCells [flat_cell (Some northern_bounds) landslide_80] ''landslide'') ''landslide''
     = Inr [hill_road_alert] \<and>
   ring_road_alert \<noteq> hill_road_alert"
  by code_simp

text \<open>
  What a payload yields that is neither a list nor an object whose \<open>status\<close> is a
  list: the empty sequence for \<open>false\<close>, \<open>0\<close> and the empty string, an exception
  for everything else.
\<close>

lemma non_list_payload:
  assumes "\<forall>xs. dat \<noteq> P_arr xs \<and> dat \<noteq> P_obj (Some (P_arr xs))"
  shows "transformedCells_of dat =
           (if dat = P_bool False \<or> dat = P_num 0 \<or> dat = P_str ''''
            then Inr [] else Inl TypeError)"
proof (cases dat)
  case (P_obj st)
  show ?thesis
  proof (cases st)
    case None
    with P_obj show ?thesis by (simp add: transformedCells_of_def)
  next
    case (Some v)
    with P_obj assms show ?thesis
      by (cases v) (simp_all add: transformedCells_of_def)
  qed
qed (use assms in \<open>simp_all add: transformedCells_of_def\<close>)

text \<open>
  C3 fails on the code.  A body that is the object \<open>{}\<close> (or \<open>null\<close>, or an object
  whose \<open>status\<close> is not a list) makes the \<open>try\<close> block throw: the fetch fails and
  its error is shown.  Only \<open>false\<close>, \<open>0\<close> and the empty string yield the empty
  sequence.
\<close>

theorem empty_object_payload_fails:
  "transformedCells_of (P_obj None) = Inl TypeError \<and>
   transformedCells_of P_null = Inl TypeError \<and>
   transformedCells_of (P_obj (Some (P_str ''ok''))) = Inl TypeError \<and>
   transformedCells_of (P_num 0) = Inr [] \<and>
   fetch_outcome empty_object_response = Inl TypeError \<and>
   feasible init empty_object_answer \<and>
   error (run init empty_object_answer) = Some TypeError \<and>
   riskCells (run init empty_object_answer) = []"
  by code_simp

text \<open>
  C7 fails on the code where the country is cleared while a state is selected.  The
  effect of the country does set the World view and clears the deeper levels, but in
  the same commit the effect of the state, whose dependencies contain the country,
  still reads the old state \<open>Manipur\<close> and sets the view of Manipur afterwards.
\<close>

theorem clearing_country_keeps_state_view:
  "feasible init clear_country \<and> settled (run init clear_country) \<and>
   selectedState (run init to_manipur) = ''Manipur'' \<and>
   selectedCountry (run init clear_country) = '''' \<and>
   selectedState (run init clear_country) = '''' \<and>
   selectedDistrict (run init clear_country) = '''' \<and>
   riskCells (run init clear_country) = [] \<and>
   roadAlerts (run init clear_country) = [] \<and>
   mapCenter (run init clear_country) = center MAP_VIEWS_manipur \<and>
   mapZoom (run init clear_country) = zoom MAP_VIEWS_manipur \<and>
   mapCenter (run init clear_country) \<noteq> center MAP_VIEWS_world \<and>
   mapZoom (run init clear_country) \<noteq> zoom MAP_VIEWS_world"
  by code_simp

section \<open>Rounding to double precision\<close>

lemma pow2_pos: "0 < pow2 e"
  by (simp add: pow2_def)

lemma pow2_powr: "pow2 e = 2 powr (of_int e)"
  by (simp add: pow2_def powr_realpow [symmetric] powr_minus divide_inverse)

lemma pow2_mono: "e \<le> e' \<Longrightarrow> pow2 e \<le> pow2 e'"
  by (simp add: pow2_powr)

lemma pow2_half: "pow2 e / 2 = pow2 (e - 1)"
  by (simp add: pow2_powr powr_diff)

lemma pow2_nat: "pow2 (int k) = 2 ^ k"
  by (simp add: pow2_def)

lemma round_even_error: "\<bar>of_int (round_even r) - r\<bar> \<le> 1 / 2"
  unfolding round_even_def Let_def by (auto simp: abs_le_iff)

lemma ilog2_less:
  assumes "0 < x" and "x < 2 ^ k" and "0 < k"
  shows "ilog2 x < int k"
proof (cases "1 \<le> x")
  case True
  from assms(2) have "\<lfloor>x\<rfloor> < 2 ^ k"
    by (simp add: floor_less_iff)
  then have "bitlen \<lfloor>x\<rfloor> \<le> int k"
    by (simp add: bitlen_le_iff_power)
  with True show ?thesis by (simp add: ilog2_def)
next
  case False
  then show ?thesis
    using assms(3) bitlen_nonneg [of "\<lceil>1 / x\<rceil> - 1"] by (simp add: ilog2_def)
qed

lemma ilog2_bounds:
  assumes "0 < x"
  shows "pow2 (ilog2 x) \<le> x \<and> x < pow2 (ilog2 x + 1)"
proof (cases "1 \<le> x")
  case True
  let ?n = "\<lfloor>x\<rfloor>"
  from True have n: "0 < ?n" by simp
  then have b: "1 \<le> bitlen ?n" by (auto simp: bitlen_alt_def)
  from bitlen_bounds [OF n] have lo: "2 ^ nat (bitlen ?n - 1) \<le> ?n"
    and hi: "?n + 1 \<le> 2 ^ nat (bitlen ?n)" by auto
  from lo have "(2::real) ^ nat (bitlen ?n - 1) \<le> of_int ?n"
    by (metis of_int_le_iff of_int_numeral of_int_power)
  also have "\<dots> \<le> x" by simp
  finally have 1: "pow2 (ilog2 x) \<le> x"
    using True b by (simp add: ilog2_def pow2_def)
  have "x < of_int (?n + 1)" by linarith
  also from hi have "\<dots> \<le> (2::real) ^ nat (bitlen ?n)"
    by (metis of_int_le_iff of_int_numeral of_int_power)
  finally have 2: "x < pow2 (ilog2 x + 1)"
    using True b by (simp add: ilog2_def pow2_def)
  from 1 2 show ?thesis ..
next
  case False
  let ?m = "\<lceil>1 / x\<rceil>"
  let ?L = "bitlen (?m - 1)"
  from False assms have y: "1 < 1 / x" by simp
  then have m: "0 < ?m - 1" by linarith
  then have b: "1 \<le> ?L" by (auto simp: bitlen_alt_def)
  from bitlen_bounds [OF m] have lo: "2 ^ nat (?L - 1) \<le> ?m - 1"
    and hi: "?m \<le> 2 ^ nat ?L" by auto
  have "1 / x \<le> of_int ?m" by simp
  also from hi have "\<dots> \<le> (2::real) ^ nat ?L"
    by (metis of_int_le_iff of_int_numeral of_int_power)
  finally have "1 / x \<le> 2 ^ nat ?L" .
  with assms have "1 / 2 ^ nat ?L \<le> x"
    by (simp add: field_simps)
  then have 1: "pow2 (ilog2 x) \<le> x"
    using False b by (simp add: ilog2_def pow2_def)
  from lo have "(2::real) ^ nat (?L - 1) \<le> of_int (?m - 1)"
    by (metis of_int_le_iff of_int_numeral of_int_power)
  also have "\<dots> < 1 / x" by linarith
  finally have "2 ^ nat (?L - 1) < 1 / x" .
  with assms have "x < 1 / 2 ^ nat (?L - 1)"
    by (simp add: field_simps)
  moreover have "pow2 (ilog2 x + 1) = 1 / 2 ^ nat (?L - 1)"
    using False b by (auto simp add: ilog2_def pow2_def)
  ultimately have 2: "x < pow2 (ilog2 x + 1)" by simp
  from 1 2 show ?thesis ..
qed

text \<open>The rounding error of \<open>to_double\<close> below \<open>2 ^ k\<close>.\<close>

lemma to_double_error:
  assumes "\<bar>x\<bar> < 2 ^ k" and "0 < k" and "k \<le> 1000"
  shows "\<exists>y. to_double x = Num y \<and> \<bar>y - x\<bar> \<le> pow2 (int k - 54)"
proof (cases "x = 0")
  case True
  then show ?thesis using pow2_pos [of "int k - 54"] by (simp add: to_double_def)
next
  case False
  define e where "e = max (ilog2 \<bar>x\<bar>) (- 1022)"
  define q where "q = pow2 (e - 52)"
  define y where "y = of_int (round_even (x / q)) * q"
  have q0: "0 < q" by (simp add: q_def pow2_pos)
  from False assms have "ilog2 \<bar>x\<bar> < int k"
    by (intro ilog2_less) simp_all
  then have "e \<le> int k - 1" using assms(2) by (simp add: e_def)
  then have "q \<le> pow2 (int k - 53)"
    unfolding q_def by (intro pow2_mono) simp
  then have qh: "q / 2 \<le> pow2 (int k - 54)"
    using pow2_half [of "int k - 53"] by simp
  have "y - x = (of_int (round_even (x / q)) - x / q) * q"
    using q0 by (simp add: y_def field_simps)
  then have "\<bar>y - x\<bar> = \<bar>of_int (round_even (x / q)) - x / q\<bar> * q"
    using q0 by (simp add: abs_mult)
  also have "\<dots> \<le> 1 / 2 * q"
    using q0 round_even_error [of "x / q"] by (intro mult_right_mono) simp_all
  finally have err: "\<bar>y - x\<bar> \<le> q / 2" by simp
  have "pow2 (int k - 54) \<le> pow2 (int k)"
    by (intro pow2_mono) simp
  then have "pow2 (int k - 54) \<le> 2 ^ k" by (simp add: pow2_nat)
  with err qh have "\<bar>y\<bar> < 2 ^ k + 2 ^ k" using assms(1) by linarith
  also have "\<dots> = 2 ^ Suc k" by simp
  also have "\<dots> \<le> 2 ^ 1024"
    by (intro power_increasing) (use assms(3) in simp_all)
  finally have "\<not> 2 ^ 1024 \<le> \<bar>y\<bar>" by simp
  then have "to_double x = Num y"
    using False by (simp add: to_double_def Let_def e_def q_def y_def)
  with err qh show ?thesis by auto
qed

text \<open>
  The midpoint as \<open>handleRoadAlertClick\<close> computes it, for coordinates of at most
  180 degrees: a finite double within \<open>2 ^ (-44)\<close> of the exact midpoint.
\<close>

lemma js_midpoint_accuracy:
  assumes "\<bar>a\<bar> \<le> 180" and "\<bar>b\<bar> \<le> 180"
  shows "\<exists>c. js_half (js_add (to_double a) (to_double b)) = Num c \<and>
             \<bar>c - (a + b) / 2\<bar> \<le> 1 / 2 ^ 44"
proof -
  have p: "pow2 (int 8 - 54) = 1 / 70368744177664" "pow2 (int 9 - 54) = 1 / 35184372088832"
    by (simp_all add: pow2_def)
  from assms have "\<bar>a\<bar> < 2 ^ 8" "\<bar>b\<bar> < 2 ^ 8" by simp_all
  from to_double_error [OF this(1)] to_double_error [OF this(2)]
  obtain ya yb where ya: "to_double a = Num ya" "\<bar>ya - a\<bar> \<le> 1 / 70368744177664"
    and yb: "to_double b = Num yb" "\<bar>yb - b\<bar> \<le> 1 / 70368744177664"
    unfolding p by auto
  from assms ya(2) yb(2) have "\<bar>ya + yb\<bar> < 512" by linarith
  then have "\<bar>ya + yb\<bar> < 2 ^ 9" by simp
  from to_double_error [OF this]
  obtain yz where yz: "to_double (ya + yb) = Num yz"
    "\<bar>yz - (ya + yb)\<bar> \<le> 1 / 35184372088832"
    unfolding p by auto
  from assms ya(2) yb(2) yz(2) have "\<bar>yz / 2\<bar> < 256" by linarith
  then have "\<bar>yz / 2\<bar> < 2 ^ 8" by simp
  from to_double_error [OF this]
  obtain c where c: "to_double (yz / 2) = Num c" "\<bar>c - yz / 2\<bar> \<le> 1 / 70368744177664"
    unfolding p by auto
  have "js_half (js_add (to_double a) (to_double b)) = Num c"
    by (simp add: ya(1) yb(1) yz(1) c(1))
  moreover have "\<bar>c - (a + b) / 2\<bar> \<le> 1 / 17592186044416"
  proof -
    define d1 d2 d3 d4 where "d1 = c - yz / 2" and "d2 = yz - (ya + yb)"
      and "d3 = ya - a" and "d4 = yb - b"
    have "c - (a + b) / 2 = d1 + d2 / 2 + d3 / 2 + d4 / 2"
      by (simp add: d1_def d2_def d3_def d4_def field_simps)
    moreover have "\<bar>d1\<bar> \<le> 1 / 70368744177664" "\<bar>d2\<bar> \<le> 2 / 70368744177664"
      "\<bar>d3\<bar> \<le> 1 / 70368744177664" "\<bar>d4\<bar> \<le> 1 / 70368744177664"
      using ya(2) yb(2) yz(2) c(2) by (simp_all add: d1_def d2_def d3_def d4_def)
    ultimately have "\<bar>c - (a + b) / 2\<bar> \<le> 3 / 70368744177664"
      by linarith
    then show ?thesis by simp
  qed
  then have "\<bar>c - (a + b) / 2\<bar> \<le> 1 / 2 ^ 44" by simp
  ultimately show ?thesis by blast
qed

lemmas double_eval = to_double_def ilog2_def round_even_def pow2_def Let_def compute_bitlen

subsection \<open>Focusing an alert\<close>

text \<open>
  C9: in a settled component, clicking an alert whose first cell has bounds \<open>b\<close>
  (and whose cells all have bounds, as RiskCells do) sets the centre of the view to
  the midpoint of \<open>b\<close> as the code computes it, \<open>(minLat + maxLat) / 2\<close> and
  \<open>(minLon + maxLon) / 2\<close> in double arithmetic, which for coordinates of at most 180
  degrees is a finite double within \<open>2 ^ (-44)\<close> of the exact midpoint; it sets the
  zoom to 12 and leaves country, state and district as they are.
\<close>

theorem alert_click_recentres:
  assumes "settled s"
    and "cells alert = cell # rest" and "bounds cell = Some b"
    and "\<forall>c\<in>set (cells alert). bounds c \<noteq> None"
  shows
    "let s' = step s (Click_alert alert) in
       mapCenter s' =
         (js_half (js_add (to_double (minLat b)) (to_double (maxLat b))),
          js_half (js_add (to_double (minLon b)) (to_double (maxLon b)))) \<and>
       (\<bar>minLat b\<bar> \<le> 180 \<and> \<bar>maxLat b\<bar> \<le> 180 \<longrightarrow>
          (\<exists>c. fst (mapCenter s') = Num c \<and> \<bar>c - (minLat b + maxLat b) / 2\<bar> \<le> 1 / 2 ^ 44)) \<and>
       (\<bar>minLon b\<bar> \<le> 180 \<and> \<bar>maxLon b\<bar> \<le> 180 \<longrightarrow>
          (\<exists>c. snd (mapCenter s') = Num c \<and> \<bar>c - (minLon b + maxLon b) / 2\<bar> \<le> 1 / 2 ^ 44)) \<and>
       mapZoom s' = 12 \<and>
       selectedCountry s' = selectedCountry s \<and> selectedState s' = selectedState s \<and>
       selectedDistrict s' = selectedDistrict s \<and> settled s'"
proof -
  let ?lat = "js_half (js_add (to_double (minLat b)) (to_double (maxLat b)))"
  let ?lon = "js_half (js_add (to_double (minLon b)) (to_double (maxLon b)))"
  let ?h = "s\<lparr>selectedRoadAlert := Some alert, mapCenter := (?lat, ?lon), mapZoom := 12\<rparr>"
  have h: "handleRoadAlertClick alert s = ?h"
    using assms(2,3) by (simp add: handleRoadAlertClick_def)
  have s0: "\<not> unmounted s" "\<not> render_throws s"
    using assms(1) by (simp_all add: settled_def)
  note d = settled_deps [OF assms(1)]
  have u: "\<not> unmounted ?h" using s0 by simp
  have r: "\<not> render_throws ?h"
    using render_ok_bounds [OF s0(2)] some_throws_bounds [OF assms(4)]
    by (auto simp: render_throws_def list_ex_iff rectangle_throws_def split: option.splits)
  have "commit ?h = ?h"
    using commit_quiet [OF u r] by (simp add: d)
  then have st: "step s (Click_alert alert) = ?h"
    using s0 by (simp add: step_def h)
  have "settled ?h"
    using u r by (simp add: settled_def effects_pending_def deps_of_def d)
  then show ?thesis
    using js_midpoint_accuracy [of "minLat b" "maxLat b"]
      js_midpoint_accuracy [of "minLon b" "maxLon b"]
    by (simp add: st Let_def)
qed

text \<open>
  The cell from 24.9 to 24.95 degrees of latitude: the centre is the double printed
  as 24.924999999999997, not 24.925.
\<close>

theorem alert_click_recentres_witness:
  "settled (run init chandel_answer) \<and>
   hill_road_alert \<in> set (roadAlerts (run init chandel_answer)) \<and>
   cells hill_road_alert = [flat_cell (Some northern_bounds) landslide_80] \<and>
   minLat northern_bounds = 24.9 \<and> maxLat northern_bounds = 24.95 \<and>
   minLon northern_bounds = 93.91 \<and> maxLon northern_bounds = 93.96 \<and>
   mapCenter (run init chandel_answer) = (Num 24.3167, Num 94.0167) \<and>
   mapCenter (step (run init chandel_answer) (Click_alert hill_road_alert))
     = (Num (1753940948628275 / 70368744177664), Num (1652521996082217 / 17592186044416)) \<and>
   fst (mapCenter (step (run init chandel_answer) (Click_alert hill_road_alert))) \<noteq> Num 24.925 \<and>
   \<bar>1753940948628275 / 70368744177664 - (24.9 + 24.95) / 2\<bar> \<le> (1 / 2 ^ 44 :: real) \<and>
   mapZoom (step (run init chandel_answer) (Click_alert hill_road_alert)) = 12 \<and>
   selectedCountry (step (run init chandel_answer) (Click_alert hill_road_alert)) = ''India'' \<and>
   selectedState (step (run init chandel_answer) (Click_alert hill_road_alert)) = ''Manipur'' \<and>
   selectedDistrict (step (run init chandel_answer) (Click_alert hill_road_alert)) = ''Chandel''"
proof -
  have s: "settled (run init chandel_answer)"
    by code_simp
  have c: "cells hill_road_alert = flat_cell (Some northern_bounds) landslide_80 # []"
    by (simp add: hill_road_alert_def)
  have b: "bounds (flat_cell (Some northern_bounds) landslide_80) = Some northern_bounds"
    by (simp add: flat_cell_def)
  have a: "\<forall>c\<in>set (cells hill_road_alert). bounds c \<noteq> None"
    by (simp add: hill_road_alert_def flat_cell_def)
  have m: "hill_road_alert \<in> set (roadAlerts (run init chandel_answer))"
    "mapCenter (run init chandel_answer) = (Num 24.3167, Num 94.0167)"
    "selectedCountry (run init chandel_answer) = ''India''"
    "selectedState (run init chandel_answer) = ''Manipur''"
    "selectedDistrict (run init chandel_answer) = ''Chandel''"
    by code_simp+
  have lat: "js_half (js_add (to_double (minLat northern_bounds)) (to_double (maxLat northern_bounds)))
      = Num (1753940948628275 / 70368744177664)"
    by (simp add: northern_bounds_def double_eval)
  have lon: "js_half (js_add (to_double (minLon northern_bounds)) (to_double (maxLon northern_bounds)))
      = Num (1652521996082217 / 17592186044416)"
    by (simp add: northern_bounds_def double_eval)
  have n: "minLat northern_bounds = 24.9" "maxLat northern_bounds = 24.95"
    "minLon northern_bounds = 93.91" "maxLon northern_bounds = 93.96"
    by (simp_all add: northern_bounds_def)
  from alert_click_recentres [OF s c b a]
  have "mapCenter (step (run init chandel_answer) (Click_alert hill_road_alert))
       = (Num (1753940948628275 / 70368744177664), Num (1652521996082217 / 17592186044416)) \<and>
     mapZoom (step (run init chandel_answer) (Click_alert hill_road_alert)) = 12 \<and>
     selectedCountry (step (run init chandel_answer) (Click_alert hill_road_alert)) = ''India'' \<and>
     selectedState (step (run init chandel_answer) (Click_alert hill_road_alert)) = ''Manipur'' \<and>
     selectedDistrict (step (run init chandel_answer) (Click_alert hill_road_alert)) = ''Chandel''"
    by (simp add: Let_def lat lon m)
  with s c m n show ?thesis
    by simp
qed

end
